theory Spec2Isabelle
  imports Complex_Main "HOL-Library.Sublist" "HOL-Library.AList"
begin

section \<open>LangHire: skill matching and candidate scoring\<close>

text \<open>
  A shallow embedding of \<^verbatim>\<open>src/analyzer/skill_matcher.py\<close>,
  \<^verbatim>\<open>src/analyzer/scoring_engine.py\<close> and the two thresholds of \<^verbatim>\<open>config.py\<close>.

  Conventions of the embedding.
  \<^item> Python numbers (\<^verbatim>\<open>int\<close>, \<^verbatim>\<open>float\<close>) that take part in score arithmetic are
    modelled by exact reals: the binary rounding error of a \<^verbatim>\<open>float\<close> operation is
    not modelled, the explicit \<^verbatim>\<open>round(x, 2)\<close> calls are.
  \<^item> Python strings are modelled by \<^typ>\<open>string\<close>. The character classes of \<^verbatim>\<open>re\<close> and
    \<^verbatim>\<open>str.lower\<close> are embedded on ASCII characters; the properties of the matching rule
    are stated for ASCII strings.
  \<^item> A dict is an association list read with \<^const>\<open>map_of\<close>.
  \<^item> An exception is a value of \<open>py_error\<close>; code inside \<^verbatim>\<open>try\<close> returns the
    state reached together with the exception, if any.
\<close>

subsection \<open>Configuration (\<^verbatim>\<open>config.py\<close>) and the engine's constructor\<close>

record config =
  HIRE_THRESHOLD :: real
  STRONG_HIRE_THRESHOLD :: real

definition Config :: config where
  "Config = \<lparr>HIRE_THRESHOLD = 70, STRONG_HIRE_THRESHOLD = 85\<rparr>"

record score_weights =
  w_skills :: real
  w_experience :: real
  w_education :: real
  w_achievements :: real
  w_cultural_fit :: real

record scoring_engine =
  weights :: score_weights
  hire_threshold :: real
  strong_hire_threshold :: real

text \<open>\<^verbatim>\<open>ScoringEngine.__init__\<close>, reading the thresholds of the configuration \<open>cfg\<close>.\<close>

definition ScoringEngine :: "config \<Rightarrow> scoring_engine" where
  "ScoringEngine cfg =
     \<lparr>weights = \<lparr>w_skills = 35 / 100, w_experience = 30 / 100, w_education = 15 / 100,
                  w_achievements = 10 / 100, w_cultural_fit = 10 / 100\<rparr>,
      hire_threshold = HIRE_THRESHOLD cfg,
      strong_hire_threshold = STRONG_HIRE_THRESHOLD cfg\<rparr>"

subsection \<open>Recommendation\<close>

record recommendation =
  decision :: string
  confidence :: string
  reasoning :: string
  score :: real

definition generate_recommendation :: "scoring_engine \<Rightarrow> real \<Rightarrow> recommendation" where
  "generate_recommendation self overall_score =
     (if overall_score \<ge> strong_hire_threshold self then
        \<lparr>decision = ''Strong Hire'', confidence = ''High'',
         reasoning = ''Candidate demonstrates strong alignment with role requirements'',
         score = overall_score\<rparr>
      else if overall_score \<ge> hire_threshold self then
        \<lparr>decision = ''Hire'', confidence = ''Medium-High'',
         reasoning = ''Candidate meets most requirements with some areas for development'',
         score = overall_score\<rparr>
      else if overall_score \<ge> 50 then
        \<lparr>decision = ''Maybe'', confidence = ''Medium'',
         reasoning = ''Candidate shows potential but has significant gaps'',
         score = overall_score\<rparr>
      else
        \<lparr>decision = ''Don't Hire'', confidence = ''High'',
         reasoning = ''Candidate does not meet minimum requirements'',
         score = overall_score\<rparr>)"

subsection \<open>Python dicts and sets\<close>

text \<open>
  \<^verbatim>\<open>d.get(k, default)\<close> and \<^verbatim>\<open>d[k] = v\<close> on an association list. A Python \<^verbatim>\<open>set\<close> is a
  duplicate-free list; Python leaves the iteration order of a set open, the model fixes the
  order of first occurrence, and no property below depends on it.
\<close>

definition dict_get :: "('k \<times> 'v) list \<Rightarrow> 'k \<Rightarrow> 'v \<Rightarrow> 'v" where
  "dict_get d k dflt = (case map_of d k of None \<Rightarrow> dflt | Some v \<Rightarrow> v)"

definition dict_set :: "('k \<times> 'v) list \<Rightarrow> 'k \<Rightarrow> 'v \<Rightarrow> ('k \<times> 'v) list" where
  "dict_set d k v = AList.update k v d"

definition py_set :: "'a list \<Rightarrow> 'a list" where
  "py_set xs = remdups xs"

definition intersection :: "'a list \<Rightarrow> 'a list \<Rightarrow> 'a list" where
  "intersection a b = filter (\<lambda>x. x \<in> set b) a"

definition difference :: "'a list \<Rightarrow> 'a list \<Rightarrow> 'a list" where
  "difference a b = filter (\<lambda>x. x \<notin> set b) a"

subsection \<open>Skill match calculator (\<^verbatim>\<open>SkillMatcher.calculate_skill_match_score\<close>)\<close>

type_synonym skill_map = "(string \<times> string list) list"

record match_result =
  exact_matches :: skill_map
  partial_matches :: skill_map
  missing_skills :: skill_map
  category_scores :: "(string \<times> real) list"
  overall_score :: real
  total_required :: nat
  total_matched :: nat

text \<open>The variables the loop over the categories updates.\<close>

record match_loop_state =
  result :: match_result
  total_required_count :: nat
  total_matched_count :: nat
  category_scores_acc :: "(string \<times> real) list"

definition match_init :: match_loop_state where
  "match_init =
     \<lparr>result = \<lparr>exact_matches = [], partial_matches = [], missing_skills = [],
                 category_scores = [], overall_score = 0, total_required = 0,
                 total_matched = 0\<rparr>,
      total_required_count = 0, total_matched_count = 0, category_scores_acc = []\<rparr>"

text \<open>One iteration of the loop; the first branch is the \<^verbatim>\<open>continue\<close>.\<close>

definition match_category ::
  "skill_map \<Rightarrow> skill_map \<Rightarrow> string \<Rightarrow> match_loop_state \<Rightarrow> match_loop_state" where
  "match_category candidate_skills required_skills category st =
     (let candidate_cat_skills = py_set (dict_get candidate_skills category []);
          required_cat_skills = py_set (dict_get required_skills category [])
      in if required_cat_skills = [] then st
         else
           let exact = intersection candidate_cat_skills required_cat_skills;
               missing = difference required_cat_skills candidate_cat_skills;
               res = (result st)
                 \<lparr>exact_matches := dict_set (exact_matches (result st)) category exact,
                  missing_skills := dict_set (missing_skills (result st)) category missing\<rparr>;
               category_score = real (length exact) / real (length required_cat_skills) * 100
           in st\<lparr>result := res,
                 category_scores_acc := dict_set (category_scores_acc st) category category_score,
                 total_required_count := total_required_count st + length required_cat_skills,
                 total_matched_count := total_matched_count st + length exact\<rparr>)"

fun match_loop ::
  "skill_map \<Rightarrow> skill_map \<Rightarrow> string list \<Rightarrow> match_loop_state \<Rightarrow> match_loop_state" where
  "match_loop c r [] st = st"
| "match_loop c r (category # cats) st = match_loop c r cats (match_category c r category st)"

definition calculate_skill_match_score :: "skill_map \<Rightarrow> skill_map \<Rightarrow> match_result" where
  "calculate_skill_match_score candidate_skills required_skills =
     (let st = match_loop candidate_skills required_skills
                 (py_set (map fst candidate_skills @ map fst required_skills)) match_init;
          res = (result st)
                 \<lparr>category_scores := category_scores_acc st,
                  total_required := total_required_count st,
                  total_matched := total_matched_count st\<rparr>
      in if total_required_count st > 0
         then res\<lparr>overall_score :=
                    real (total_matched_count st) / real (total_required_count st) * 100\<rparr>
         else res)"

text \<open>The score the loop stores for a category, in terms of the two inputs.\<close>

definition category_score_of :: "skill_map \<Rightarrow> skill_map \<Rightarrow> string \<Rightarrow> real" where
  "category_score_of c r cat =
     real (card (set (dict_get c cat []) \<inter> set (dict_get r cat [])))
       / real (card (set (dict_get r cat []))) * 100"

subsection \<open>Characters and \<^verbatim>\<open>str.lower\<close>\<close>

text \<open>
  The character classes of Python's \<^verbatim>\<open>re\<close> on ASCII text: \<^verbatim>\<open>\w\<close> is a letter, a digit
  or the underscore, \<^verbatim>\<open>\d\<close> a digit, \<^verbatim>\<open>\s\<close> a whitespace character.
\<close>

definition is_digit :: "char \<Rightarrow> bool" where
  "is_digit c = (48 \<le> (of_char c :: nat) \<and> (of_char c :: nat) \<le> 57)"

definition is_upper :: "char \<Rightarrow> bool" where
  "is_upper c = (65 \<le> (of_char c :: nat) \<and> (of_char c :: nat) \<le> 90)"

definition is_lower :: "char \<Rightarrow> bool" where
  "is_lower c = (97 \<le> (of_char c :: nat) \<and> (of_char c :: nat) \<le> 122)"

definition is_word_char :: "char \<Rightarrow> bool" where
  "is_word_char c = (is_digit c \<or> is_upper c \<or> is_lower c \<or> c = CHR ''_'')"

definition is_space :: "char \<Rightarrow> bool" where
  "is_space c = ((9 \<le> (of_char c :: nat) \<and> (of_char c :: nat) \<le> 13)
                 \<or> (28 \<le> (of_char c :: nat) \<and> (of_char c :: nat) \<le> 32))"

definition lower_char :: "char \<Rightarrow> char" where
  "lower_char c =
     dict_get (zip ''ABCDEFGHIJKLMNOPQRSTUVWXYZ'' ''abcdefghijklmnopqrstuvwxyz'') c c"

definition lower :: "string \<Rightarrow> string" where
  "lower s = map lower_char s"

subsection \<open>The fragment of \<^verbatim>\<open>re\<close> the program uses\<close>

text \<open>
  The patterns of the program are built from literal characters, the classes \<^verbatim>\<open>\d\<close> and
  \<^verbatim>\<open>\s\<close>, the word boundary \<^verbatim>\<open>\b\<close>, \<^verbatim>\<open>?\<close> on a pattern, \<^verbatim>\<open>*\<close>, \<^verbatim>\<open>+\<close> and
  \<^verbatim>\<open>{n}\<close> on a class, capturing groups and concatenation.
\<close>

datatype cclass = Digit | Space

datatype regex =
    Eps
  | Chr char
  | Cls cclass
  | WordB
  | Opt regex
  | Star cclass
  | Plus cclass
  | Rep nat cclass
  | Grp regex
  | Cat regex regex

fun in_class :: "cclass \<Rightarrow> char \<Rightarrow> bool" where
  "in_class Digit c = is_digit c"
| "in_class Space c = is_space c"

text \<open>
  A position of the scan: the character before it, if any, and the text from it on.
  \<^verbatim>\<open>\b\<close> matches where exactly one of the two neighbours is a word character; the start and
  the end of the text count as non-word.
\<close>

type_synonym position = "char option \<times> string"

definition word_before :: "char option \<Rightarrow> bool" where
  "word_before p = (case p of None \<Rightarrow> False | Some c \<Rightarrow> is_word_char c)"

definition word_after :: "string \<Rightarrow> bool" where
  "word_after xs = (case xs of [] \<Rightarrow> False | x # _ \<Rightarrow> is_word_char x)"

definition at_boundary :: "position \<Rightarrow> bool" where
  "at_boundary pos = (word_before (fst pos) \<noteq> word_after (snd pos))"

definition advance :: "position \<Rightarrow> nat \<Rightarrow> position" where
  "advance pos n =
     (if n = 0 \<or> snd pos = [] then pos
      else (Some (last (take n (snd pos))), drop n (snd pos)))"

text \<open>
  The backtracking matcher: every way the pattern matches at a position, in the order the
  engine tries them (greedy first), each with its captured groups, the text consumed and
  the position reached.
\<close>

type_synonym outcome = "string list \<times> string \<times> position"

definition consume :: "position \<Rightarrow> nat \<Rightarrow> outcome" where
  "consume pos n = ([], take n (snd pos), advance pos n)"

text \<open>
  Concatenation continues every outcome of the first pattern with every outcome of the
  second at the position reached, keeping the order.
\<close>

fun extend :: "string list \<Rightarrow> string \<Rightarrow> outcome list \<Rightarrow> outcome list" where
  "extend g1 t1 [] = []"
| "extend g1 t1 ((g2, t2, pos2) # rest) = (g1 @ g2, t1 @ t2, pos2) # extend g1 t1 rest"

fun seq_with :: "(position \<Rightarrow> outcome list) \<Rightarrow> outcome list \<Rightarrow> outcome list" where
  "seq_with f [] = []"
| "seq_with f ((g1, t1, pos1) # rest) = extend g1 t1 (f pos1) @ seq_with f rest"

fun capture :: "outcome list \<Rightarrow> outcome list" where
  "capture [] = []"
| "capture ((g, t, pos') # rest) = (t # g, t, pos') # capture rest"

fun rmatch :: "regex \<Rightarrow> position \<Rightarrow> outcome list" where
  "rmatch Eps pos = [([], [], pos)]"
| "rmatch (Chr c) pos =
     (case snd pos of [] \<Rightarrow> [] | x # xs \<Rightarrow> if x = c then [([], [x], (Some x, xs))] else [])"
| "rmatch (Cls k) pos =
     (case snd pos of [] \<Rightarrow> []
      | x # xs \<Rightarrow> if in_class k x then [([], [x], (Some x, xs))] else [])"
| "rmatch WordB pos = (if at_boundary pos then [([], [], pos)] else [])"
| "rmatch (Opt r) pos = rmatch r pos @ [([], [], pos)]"
| "rmatch (Star k) pos =
     map (consume pos) (rev [0 ..< Suc (length (takeWhile (in_class k) (snd pos)))])"
| "rmatch (Plus k) pos =
     map (consume pos) (rev [1 ..< Suc (length (takeWhile (in_class k) (snd pos)))])"
| "rmatch (Rep n k) pos =
     (if n \<le> length (takeWhile (in_class k) (snd pos)) then [consume pos n] else [])"
| "rmatch (Grp r) pos = capture (rmatch r pos)"
| "rmatch (Cat a b) pos = seq_with (rmatch b) (rmatch a pos)"

text \<open>A string as a pattern of literal characters: what \<^verbatim>\<open>re.escape\<close> yields.\<close>

fun literal :: "string \<Rightarrow> regex" where
  "literal [] = Eps"
| "literal (c # cs) = Cat (Chr c) (literal cs)"

text \<open>
  \<^verbatim>\<open>re.search\<close>: the leftmost position where the pattern matches. \<^verbatim>\<open>re.findall\<close>: the
  matches from left to right, each search starting where the last match ended (\<open>skip\<close>
  counts the characters of the last match still to pass); a match is reported by its
  group when the pattern has one group and by the tuple of its groups when it has more.
  The patterns given to \<^verbatim>\<open>findall\<close> here never match the empty string.
\<close>

fun search_from :: "regex \<Rightarrow> char option \<Rightarrow> string \<Rightarrow> bool" where
  "search_from r p [] = (rmatch r (p, []) \<noteq> [])"
| "search_from r p (x # xs) = (rmatch r (p, x # xs) \<noteq> [] \<or> search_from r (Some x) xs)"

definition re_search :: "regex \<Rightarrow> string \<Rightarrow> bool" where
  "re_search r text = search_from r None text"

datatype found = FStr string | FTup "string list"

definition report :: "outcome \<Rightarrow> found" where
  "report m = (case fst m of [] \<Rightarrow> FStr (fst (snd m)) | [g] \<Rightarrow> FStr g | gs \<Rightarrow> FTup gs)"

fun findall_from :: "regex \<Rightarrow> nat \<Rightarrow> char option \<Rightarrow> string \<Rightarrow> found list" where
  "findall_from r skip p [] =
     (if skip = 0 then (case rmatch r (p, []) of [] \<Rightarrow> [] | m # _ \<Rightarrow> [report m]) else [])"
| "findall_from r skip p (x # xs) =
     (if skip > 0 then findall_from r (skip - 1) (Some x) xs
      else (case rmatch r (p, x # xs) of
              [] \<Rightarrow> findall_from r 0 (Some x) xs
            | m # _ \<Rightarrow> report m # findall_from r (length (fst (snd m)) - 1) (Some x) xs))"

definition re_findall :: "regex \<Rightarrow> string \<Rightarrow> found list" where
  "re_findall r text = findall_from r 0 None text"

subsection \<open>Skill taxonomy and extractor (\<^verbatim>\<open>SkillMatcher\<close>)\<close>

record skill_matcher =
  skill_categories :: skill_map
  skill_synonyms :: skill_map

definition load_skill_categories :: skill_map where
  "load_skill_categories =
     [(''programming_languages'',
         [''python'', ''java'', ''javascript'', ''typescript'', ''c++'', ''c#'', ''go'',
          ''rust'', ''swift'', ''kotlin'', ''scala'', ''ruby'', ''php'', ''r'', ''matlab'']),
      (''web_technologies'',
         [''html'', ''css'', ''react'', ''angular'', ''vue'', ''node.js'', ''express'',
          ''django'', ''flask'', ''spring'', ''asp.net'', ''laravel'', ''rails'']),
      (''databases'',
         [''mysql'', ''postgresql'', ''mongodb'', ''redis'', ''elasticsearch'',
          ''oracle'', ''sql server'', ''sqlite'', ''cassandra'', ''dynamodb'']),
      (''cloud_platforms'',
         [''aws'', ''azure'', ''gcp'', ''google cloud'', ''docker'', ''kubernetes'',
          ''terraform'', ''ansible'', ''jenkins'', ''gitlab'', ''github actions'']),
      (''data_science'',
         [''pandas'', ''numpy'', ''scikit-learn'', ''tensorflow'', ''pytorch'',
          ''spark'', ''hadoop'', ''tableau'', ''power bi'', ''jupyter'']),
      (''soft_skills'',
         [''leadership'', ''communication'', ''problem solving'', ''teamwork'',
          ''project management'', ''analytical thinking'', ''creativity''])]"

definition load_skill_synonyms :: skill_map where
  "load_skill_synonyms =
     [(''javascript'', [''js'', ''node'', ''nodejs'', ''node.js'']),
      (''typescript'', [''ts'']),
      (''python'', [''py'']),
      (''postgresql'', [''postgres'', ''psql'']),
      (''mongodb'', [''mongo'']),
      (''kubernetes'', [''k8s'']),
      (''amazon web services'', [''aws'']),
      (''google cloud platform'', [''gcp'', ''google cloud'']),
      (''microsoft azure'', [''azure'']),
      (''machine learning'', [''ml'', ''artificial intelligence'', ''ai'']),
      (''deep learning'', [''dl'', ''neural networks'']),
      (''natural language processing'', [''nlp'']),
      (''computer vision'', [''cv'']),
      (''user interface'', [''ui'']),
      (''user experience'', [''ux'']),
      (''application programming interface'', [''api'', ''rest api'', ''restful'']),
      (''structured query language'', [''sql'']),
      (''nosql'', [''no-sql'', ''document database'']),
      (''continuous integration'', [''ci'', ''ci/cd'']),
      (''continuous deployment'', [''cd'']),
      (''test driven development'', [''tdd'']),
      (''behavior driven development'', [''bdd'']),
      (''object oriented programming'', [''oop'']),
      (''functional programming'', [''fp''])]"

text \<open>
  \<^verbatim>\<open>SkillMatcher.__init__\<close>; the four further tables it loads are read by none of the
  functions embedded here.
\<close>

definition SkillMatcher :: skill_matcher where
  "SkillMatcher = \<lparr>skill_categories = load_skill_categories,
                    skill_synonyms = load_skill_synonyms\<rparr>"

text \<open>\<^verbatim>\<open>_skill_mentioned\<close>: the pattern is \<^verbatim>\<open>\b\<close>, the escaped lower-cased skill, \<^verbatim>\<open>\b\<close>.\<close>

definition skill_pattern :: "string \<Rightarrow> regex" where
  "skill_pattern skill = Cat WordB (Cat (literal (lower skill)) WordB)"

definition skill_mentioned :: "string \<Rightarrow> string \<Rightarrow> bool" where
  "skill_mentioned skill text = re_search (skill_pattern skill) text"

text \<open>\<^verbatim>\<open>found_skills[category].append(skill)\<close> on a \<^verbatim>\<open>defaultdict(list)\<close>.\<close>

definition dict_append :: "skill_map \<Rightarrow> string \<Rightarrow> string \<Rightarrow> skill_map" where
  "dict_append d k v = dict_set d k (dict_get d k [] @ [v])"

text \<open>The first loop: every skill of every category, tested directly against the text.\<close>

fun scan_skills :: "string \<Rightarrow> string \<Rightarrow> string list \<Rightarrow> skill_map \<Rightarrow> skill_map" where
  "scan_skills text_lower category [] found_skills = found_skills"
| "scan_skills text_lower category (skill # skills) found_skills =
     scan_skills text_lower category skills
       (if skill_mentioned skill text_lower then dict_append found_skills category skill
        else found_skills)"

fun scan_categories :: "string \<Rightarrow> skill_map \<Rightarrow> skill_map \<Rightarrow> skill_map" where
  "scan_categories text_lower [] found_skills = found_skills"
| "scan_categories text_lower ((category, skills) # rest) found_skills =
     scan_categories text_lower rest (scan_skills text_lower category skills found_skills)"

text \<open>
  The innermost loop of the second part: the first category that holds the main skill
  receives it, unless it has it already; then the loop breaks.
\<close>

fun record_main_skill :: "string \<Rightarrow> skill_map \<Rightarrow> skill_map \<Rightarrow> skill_map" where
  "record_main_skill main_skill [] found_skills = found_skills"
| "record_main_skill main_skill ((category, skills) # rest) found_skills =
     (if main_skill \<in> set skills then
        (if main_skill \<notin> set (dict_get found_skills category [])
         then dict_append found_skills category main_skill else found_skills)
      else record_main_skill main_skill rest found_skills)"

fun scan_synonyms ::
  "skill_matcher \<Rightarrow> string \<Rightarrow> string \<Rightarrow> string list \<Rightarrow> skill_map \<Rightarrow> skill_map" where
  "scan_synonyms self text_lower main_skill [] found_skills = found_skills"
| "scan_synonyms self text_lower main_skill (synonym # synonyms) found_skills =
     scan_synonyms self text_lower main_skill synonyms
       (if skill_mentioned synonym text_lower
        then record_main_skill main_skill (skill_categories self) found_skills
        else found_skills)"

fun scan_synonym_table ::
  "skill_matcher \<Rightarrow> string \<Rightarrow> skill_map \<Rightarrow> skill_map \<Rightarrow> skill_map" where
  "scan_synonym_table self text_lower [] found_skills = found_skills"
| "scan_synonym_table self text_lower ((main_skill, synonyms) # rest) found_skills =
     scan_synonym_table self text_lower rest
       (scan_synonyms self text_lower main_skill synonyms found_skills)"

definition extract_skills_from_text :: "skill_matcher \<Rightarrow> string \<Rightarrow> skill_map" where
  "extract_skills_from_text self text =
     (let text_lower = lower text;
          found_skills = scan_categories text_lower (skill_categories self) []
      in scan_synonym_table self text_lower (skill_synonyms self) found_skills)"

text \<open>The categories of the taxonomy that list a skill.\<close>

definition categories_of :: "skill_matcher \<Rightarrow> string \<Rightarrow> string list" where
  "categories_of self skill =
     map fst (filter (\<lambda>(category, skills). skill \<in> set skills) (skill_categories self))"

subsection \<open>The matching rule in the words of the specification\<close>

text \<open>
  A word boundary lies between two stretches of text when exactly one of the two characters
  next to it is a word character; a missing character (start or end of the text) is not
  one. A term is mentioned when it occurs in the text with a word boundary right before
  and right after the occurrence.
\<close>

definition word_boundary :: "string \<Rightarrow> string \<Rightarrow> bool" where
  "word_boundary before after =
     ((before \<noteq> [] \<and> is_word_char (last before)) \<noteq> (after \<noteq> [] \<and> is_word_char (hd after)))"

definition occurs_at_word_boundaries :: "string \<Rightarrow> string \<Rightarrow> bool" where
  "occurs_at_word_boundaries term text =
     (\<exists>pre post. text = pre @ term @ post
        \<and> word_boundary pre (term @ post) \<and> word_boundary (pre @ term) post)"

subsection \<open>Auxiliary notions for the proofs about the extractor\<close>

text \<open>The character before a position that lies \<open>s\<close> after a position with \<open>p\<close> before it.\<close>

definition last_opt :: "char option \<Rightarrow> string \<Rightarrow> char option" where
  "last_opt p s = (if s = [] then p else Some (last s))"

text \<open>
  The search for a skill pattern, unfolded: at each position the literal is a prefix of the
  rest and both ends are word boundaries. It is proved equal to \<open>skill_mentioned\<close> below and
  serves to evaluate it on concrete texts.
\<close>

fun mentioned_from :: "string \<Rightarrow> char option \<Rightarrow> string \<Rightarrow> bool" where
  "mentioned_from s p [] = (s = [] \<and> at_boundary (p, []))"
| "mentioned_from s p (x # xs) =
     ((prefix s (x # xs) \<and> at_boundary (p, x # xs)
        \<and> at_boundary (last_opt p s, drop (length s) (x # xs)))
      \<or> mentioned_from s (Some x) xs)"

text \<open>
  The ASCII punctuation marks (Python's \<^verbatim>\<open>string.punctuation\<close>); the underscore is one of
  them, and is the only one that \<^verbatim>\<open>\w\<close> counts as a word character.
\<close>

definition is_punctuation :: "char \<Rightarrow> bool" where
  "is_punctuation c =
     ((33 \<le> (of_char c :: nat) \<and> (of_char c :: nat) \<le> 47)
      \<or> (58 \<le> (of_char c :: nat) \<and> (of_char c :: nat) \<le> 64)
      \<or> (91 \<le> (of_char c :: nat) \<and> (of_char c :: nat) \<le> 96)
      \<or> (123 \<le> (of_char c :: nat) \<and> (of_char c :: nat) \<le> 126))"

text \<open>
  The character classes and \<open>lower\<close> above are those of Python on ASCII characters; on other
  characters Python's \<^verbatim>\<open>\w\<close>, \<^verbatim>\<open>\s\<close> and \<^verbatim>\<open>str.lower\<close> follow the Unicode tables, which
  are not embedded. The properties of the matching rule are stated for ASCII strings.
\<close>

definition ascii :: "string \<Rightarrow> bool" where
  "ascii s = list_all (\<lambda>c. (of_char c :: nat) < 128) s"

text \<open>
  The category the extractor records a main skill under: the first one, in the order of
  the taxonomy, whose list holds it.
\<close>

definition first_category :: "skill_matcher \<Rightarrow> string \<Rightarrow> string option" where
  "first_category self main_skill =
     map_option fst
       (find (\<lambda>(category, skills). main_skill \<in> set skills) (skill_categories self))"

subsection \<open>Python values and exceptions\<close>

text \<open>
  The scoring functions take \<^verbatim>\<open>Dict[str, Any]\<close> arguments. Such an argument is a Python
  value of the JSON kinds; a dict holds its items in order, under distinct string keys.
  Floats are exact reals, so NaN and the infinities are not values.
\<close>

datatype pyval =
    PNone
  | PBool bool
  | PInt int
  | PFloat real
  | PStr string
  | PList "pyval list"
  | PDict "(string \<times> pyval) list"

text \<open>An exception, with its message.\<close>

datatype py_error =
    AttributeError string
  | TypeError string
  | ValueError string
  | OverflowError string

fun str_of_error :: "py_error \<Rightarrow> string" where
  "str_of_error (AttributeError m) = m"
| "str_of_error (TypeError m) = m"
| "str_of_error (ValueError m) = m"
| "str_of_error (OverflowError m) = m"

fun type_name :: "pyval \<Rightarrow> string" where
  "type_name PNone = ''NoneType''"
| "type_name (PBool b) = ''bool''"
| "type_name (PInt i) = ''int''"
| "type_name (PFloat x) = ''float''"
| "type_name (PStr s) = ''str''"
| "type_name (PList xs) = ''list''"
| "type_name (PDict d) = ''dict''"

definition quoted :: "string \<Rightarrow> string" where
  "quoted s = CHR 0x27 # s @ [CHR 0x27]"

definition no_attribute :: "string \<Rightarrow> string \<Rightarrow> py_error" where
  "no_attribute ty attr =
     AttributeError (quoted ty @ '' object has no attribute '' @ quoted attr)"

text \<open>\<^verbatim>\<open>v.get(key, default)\<close> and \<^verbatim>\<open>v.values()\<close>: only a dict has them.\<close>

fun py_get :: "pyval \<Rightarrow> string \<Rightarrow> pyval \<Rightarrow> py_error + pyval" where
  "py_get (PDict d) key dflt = Inr (dict_get d key dflt)"
| "py_get v key dflt = Inl (no_attribute (type_name v) ''get'')"

fun py_values :: "pyval \<Rightarrow> py_error + pyval list" where
  "py_values (PDict d) = Inr (map snd d)"
| "py_values v = Inl (no_attribute (type_name v) ''values'')"

text \<open>\<^verbatim>\<open>len(v)\<close>: strings, lists and dicts have a length.\<close>

fun py_len :: "pyval \<Rightarrow> py_error + nat" where
  "py_len (PStr s) = Inr (length s)"
| "py_len (PList xs) = Inr (length xs)"
| "py_len (PDict d) = Inr (length d)"
| "py_len v = Inl (TypeError (''object of type '' @ quoted (type_name v) @ '' has no len()''))"

text \<open>The numbers: \<^verbatim>\<open>bool\<close>, \<^verbatim>\<open>int\<close> and \<^verbatim>\<open>float\<close>.\<close>

fun as_number :: "pyval \<Rightarrow> real option" where
  "as_number (PBool b) = Some (if b then 1 else 0)"
| "as_number (PInt i) = Some (of_int i)"
| "as_number (PFloat x) = Some x"
| "as_number v = None"

text \<open>
  \<^verbatim>\<open>min(v, 100)\<close>: the builtin compares \<^verbatim>\<open>100 < v\<close> and keeps \<^verbatim>\<open>v\<close> unless that holds; the
  comparison of an \<^verbatim>\<open>int\<close> with a value that is not a number raises. The result is the
  object kept, given with the number it is.
\<close>

definition py_min_100 :: "pyval \<Rightarrow> py_error + pyval \<times> real" where
  "py_min_100 v =
     (case as_number v of
        None \<Rightarrow> Inl (TypeError (quoted ''<'' @ '' not supported between instances of ''
                        @ quoted ''int'' @ '' and '' @ quoted (type_name v)))
      | Some x \<Rightarrow> Inr (if 100 < x then (PInt 100, 100) else (v, x)))"

text \<open>
  An \<^verbatim>\<open>int\<close> is converted to a \<^verbatim>\<open>float\<close> before it meets one in arithmetic; the
  conversion raises when the integer rounds to a magnitude beyond the largest float.
\<close>

definition float_overflows :: "int \<Rightarrow> bool" where
  "float_overflows i = (\<bar>i\<bar> \<ge> 2 ^ 1024 - 2 ^ 970)"

text \<open>
  \<^verbatim>\<open>v * w\<close> for a float \<^verbatim>\<open>w\<close>: an error unless \<^verbatim>\<open>v\<close> is a number that converts to a
  float; then the number \<^verbatim>\<open>v\<close> is, and the product.
\<close>

fun times_float_error :: "pyval \<Rightarrow> py_error" where
  "times_float_error (PStr s) =
     TypeError (''can't multiply sequence by non-int of type '' @ quoted ''float'')"
| "times_float_error (PList xs) =
     TypeError (''can't multiply sequence by non-int of type '' @ quoted ''float'')"
| "times_float_error v =
     TypeError (''unsupported operand type(s) for *: '' @ quoted (type_name v) @ '' and ''
                @ quoted ''float'')"

fun int_overflows :: "pyval \<Rightarrow> bool" where
  "int_overflows (PInt i) = float_overflows i"
| "int_overflows v = False"

definition py_times_float :: "pyval \<Rightarrow> real \<Rightarrow> py_error + real \<times> real" where
  "py_times_float v w =
     (case as_number v of
        None \<Rightarrow> Inl (times_float_error v)
      | Some x \<Rightarrow>
          if int_overflows v then Inl (OverflowError ''int too large to convert to float'')
          else Inr (x, x * w))"

text \<open>\<^verbatim>\<open>sum(len(x) for x in d.values())\<close>.\<close>

fun sum_len :: "pyval list \<Rightarrow> py_error + nat" where
  "sum_len [] = Inr 0"
| "sum_len (v # vs) =
     (case py_len v of Inl e \<Rightarrow> Inl e
      | Inr n \<Rightarrow> (case sum_len vs of Inl e \<Rightarrow> Inl e | Inr m \<Rightarrow> Inr (n + m)))"

definition sum_len_values :: "pyval \<Rightarrow> py_error + nat" where
  "sum_len_values d = (case py_values d of Inl e \<Rightarrow> Inl e | Inr vs \<Rightarrow> sum_len vs)"

text \<open>
  \<^verbatim>\<open>round(x, 2)\<close> rounds to the nearest multiple of 0.01, a tie to the even one.
\<close>

definition round_half_even :: "real \<Rightarrow> int" where
  "round_half_even x =
     (let f = \<lfloor>x\<rfloor>; d = x - of_int f
      in if d < 1 / 2 then f else if 1 / 2 < d then f + 1 else if even f then f else f + 1)"

definition py_round2 :: "real \<Rightarrow> real" where
  "py_round2 x = of_int (round_half_even (x * 100)) / 100"

text \<open>
  \<^verbatim>\<open>resume_data\<close> and \<^verbatim>\<open>jd_data\<close> are read only through
  \<^verbatim>\<open>str(d.get(key, ""))\<close>. Such an argument is modelled by what these reads see: a value
  without \<^verbatim>\<open>get\<close> (given by its type name), or a dict given by the \<^verbatim>\<open>str()\<close> rendering
  of each of its values.
\<close>

datatype text_record = NotADict string | TextDict "(string \<times> string) list"

fun str_get :: "text_record \<Rightarrow> string \<Rightarrow> py_error + string" where
  "str_get (TextDict d) key = Inr (dict_get d key [])"
| "str_get (NotADict ty) key = Inl (no_attribute ty ''get'')"

subsection \<open>Skills score (\<^verbatim>\<open>ScoringEngine.calculate_skills_score\<close>)\<close>

record breakdown =
  total_score :: real
  error :: "string option"

record skills_details =
  exact_matches_count :: nat
  missing_critical_skills :: nat
  overall_match_percentage :: pyval

record skills_breakdown = breakdown +
  technical_skills :: real
  skill_depth :: real
  skill_relevance :: real
  details :: "skills_details option"

definition analyze_skill_depth :: "pyval \<Rightarrow> py_error + real" where
  "analyze_skill_depth skill_analysis =
     (case py_get skill_analysis ''exact_matches'' (PDict []) of Inl e \<Rightarrow> Inl e
      | Inr exact_matches_d \<Rightarrow>
     (case sum_len_values exact_matches_d of Inl e \<Rightarrow> Inl e
      | Inr total_matches \<Rightarrow>
          Inr (if total_matches \<ge> 8 then 90
               else if total_matches \<ge> 5 then 75
               else if total_matches \<ge> 3 then 60
               else 40)))"

definition calculate_skill_relevance :: "pyval \<Rightarrow> pyval \<Rightarrow> py_error + real" where
  "calculate_skill_relevance exact_matches_d missing_skills_d =
     (case sum_len_values exact_matches_d of Inl e \<Rightarrow> Inl e
      | Inr total_exact \<Rightarrow>
     (case sum_len_values missing_skills_d of Inl e \<Rightarrow> Inl e
      | Inr total_missing \<Rightarrow>
          Inr (if total_exact + total_missing = 0 then 50
               else min (real total_exact / real (total_exact + total_missing) * 100) 100)))"

definition skills_init :: skills_breakdown where
  "skills_init = \<lparr>total_score = 0, error = None, technical_skills = 0, skill_depth = 0,
                   skill_relevance = 0, details = None\<rparr>"

text \<open>
  The body of the \<^verbatim>\<open>try\<close>: the breakdown as far as it was filled in, and the exception that
  stopped it, if any. (The local variables \<^verbatim>\<open>exact_matches\<close> and \<^verbatim>\<open>missing_skills\<close> carry a
  suffix here, the plain names being the fields of the match result.)
\<close>

definition skills_try :: "pyval \<Rightarrow> skills_breakdown \<Rightarrow> skills_breakdown \<times> py_error option" where
  "skills_try skill_analysis sb =
     (case py_get skill_analysis ''exact_matches'' (PDict []) of Inl e \<Rightarrow> (sb, Some e)
      | Inr exact_matches_d \<Rightarrow>
     (case py_get skill_analysis ''missing_skills'' (PDict []) of Inl e \<Rightarrow> (sb, Some e)
      | Inr missing_skills_d \<Rightarrow>
     (case py_get skill_analysis ''overall_score'' (PInt 0) of Inl e \<Rightarrow> (sb, Some e)
      | Inr overall_match \<Rightarrow>
     (case py_min_100 overall_match of Inl e \<Rightarrow> (sb, Some e)
      | Inr (technical_score, technical_value) \<Rightarrow>
     (let sb1 = sb\<lparr>technical_skills := technical_value\<rparr> in
      case analyze_skill_depth skill_analysis of Inl e \<Rightarrow> (sb1, Some e)
      | Inr depth_score \<Rightarrow>
     (let sb2 = sb1\<lparr>skill_depth := depth_score\<rparr> in
      case calculate_skill_relevance exact_matches_d missing_skills_d of
        Inl e \<Rightarrow> (sb2, Some e)
      | Inr relevance_score \<Rightarrow>
     (let sb3 = sb2\<lparr>skill_relevance := relevance_score\<rparr> in
      case py_times_float technical_score (4 / 10) of Inl e \<Rightarrow> (sb3, Some e)
      | Inr (t, technical_weighted) \<Rightarrow>
     (let total = technical_weighted + depth_score * (3 / 10) + relevance_score * (3 / 10);
          sb4 = sb3\<lparr>total_score := py_round2 total\<rparr> in
      case sum_len_values exact_matches_d of Inl e \<Rightarrow> (sb4, Some e)
      | Inr n_exact \<Rightarrow>
     (case sum_len_values missing_skills_d of Inl e \<Rightarrow> (sb4, Some e)
      | Inr n_missing \<Rightarrow>
          (sb4\<lparr>details := Some \<lparr>exact_matches_count = n_exact,
                                 missing_critical_skills = n_missing,
                                 overall_match_percentage = overall_match\<rparr>\<rparr>,
           None))))))))))"

definition calculate_skills_score :: "pyval \<Rightarrow> skills_breakdown" where
  "calculate_skills_score skill_analysis =
     (case skills_try skill_analysis skills_init of
        (sb, None) \<Rightarrow> sb
      | (sb, Some e) \<Rightarrow>
          sb\<lparr>error := Some (''Skills scoring error: '' @ str_of_error e), total_score := 0\<rparr>)"

text \<open>A match result as the dict the match calculator returns.\<close>

definition skill_map_to_py :: "skill_map \<Rightarrow> pyval" where
  "skill_map_to_py m = PDict (map (\<lambda>(k, v). (k, PList (map PStr v))) m)"

definition match_result_to_py :: "match_result \<Rightarrow> pyval" where
  "match_result_to_py m =
     PDict [(''exact_matches'', skill_map_to_py (exact_matches m)),
            (''partial_matches'', skill_map_to_py (partial_matches m)),
            (''missing_skills'', skill_map_to_py (missing_skills m)),
            (''category_scores'', PDict (map (\<lambda>(k, v). (k, PFloat v)) (category_scores m))),
            (''overall_score'', PFloat (overall_score m)),
            (''total_required'', PInt (int (total_required m))),
            (''total_matched'', PInt (int (total_matched m)))]"

text \<open>The number of skills a category map lists, over all its categories.\<close>

definition count_skills :: "skill_map \<Rightarrow> nat" where
  "count_skills m = (\<Sum>(k, v)\<leftarrow>m. length v)"

text \<open>The two step functions of the skills score, on the counts they are applied to.\<close>

definition depth_of :: "nat \<Rightarrow> real" where
  "depth_of n = (if n \<ge> 8 then 90 else if n \<ge> 5 then 75 else if n \<ge> 3 then 60 else 40)"

definition relevance_of :: "nat \<Rightarrow> nat \<Rightarrow> real" where
  "relevance_of e m = (if e + m = 0 then 50 else real e / real (e + m) * 100)"

text \<open>The match result of a candidate who has one of three required skills.\<close>

definition one_of_three :: match_result where
  "one_of_three =
     \<lparr>exact_matches = [(''databases'', [''mysql''])], partial_matches = [],
      missing_skills = [(''databases'', [''postgresql'', ''mongodb''])],
      category_scores = [(''databases'', 100 / 3)], overall_score = 100 / 3,
      total_required = 3, total_matched = 1\<rparr>"

subsection \<open>Experience score (\<^verbatim>\<open>ScoringEngine.calculate_experience_score\<close>)\<close>

text \<open>
  The three patterns of \<^verbatim>\<open>_calculate_years_score\<close>:
  \<^verbatim>\<open>(\d+)\+?\s*years?\<close>, \<^verbatim>\<open>(\d{4})\s*-\s*(\d{4})\<close> and \<^verbatim>\<open>(\d{4})\s*-\s*present\<close>.
\<close>

definition years_pattern :: regex where
  "years_pattern =
     Cat (Grp (Plus Digit))
       (Cat (Opt (Chr CHR ''+''))
         (Cat (Star Space) (Cat (literal ''year'') (Opt (Chr CHR ''s'')))))"

definition range_pattern :: regex where
  "range_pattern =
     Cat (Grp (Rep 4 Digit))
       (Cat (Star Space) (Cat (Chr CHR ''-'') (Cat (Star Space) (Grp (Rep 4 Digit)))))"

definition present_pattern :: regex where
  "present_pattern =
     Cat (Grp (Rep 4 Digit))
       (Cat (Star Space) (Cat (Chr CHR ''-'') (Cat (Star Space) (literal ''present''))))"

definition year_patterns :: "regex list" where
  "year_patterns = [years_pattern, range_pattern, present_pattern]"

text \<open>
  \<^verbatim>\<open>int(s)\<close> and \<^verbatim>\<open>s.isdigit()\<close> on a string; \<^verbatim>\<open>int\<close> is embedded for strings of
  digits, the only ones the patterns hand to it, and raises on the others.
\<close>

definition isdigit :: "string \<Rightarrow> bool" where
  "isdigit s = (s \<noteq> [] \<and> list_all is_digit s)"

definition digits_value :: "string \<Rightarrow> int" where
  "digits_value s = foldl (\<lambda>a c. 10 * a + (int (of_char c) - 48)) 0 s"

definition py_int :: "string \<Rightarrow> py_error + int" where
  "py_int s =
     (if isdigit s then Inr (digits_value s)
      else Inl (ValueError (''invalid literal for int() with base 10: '' @ quoted s)))"

text \<open>
  \<^verbatim>\<open>len(m)\<close>, \<^verbatim>\<open>m[i]\<close> and \<^verbatim>\<open>int(m)\<close> on an element of a \<^verbatim>\<open>findall\<close> result: a string
  has its characters as items, a tuple its groups. \<open>item\<close> is applied under
  \<^verbatim>\<open>len(m) == 2\<close> to the indices 0 and 1 only.
\<close>

fun found_len :: "found \<Rightarrow> nat" where
  "found_len (FStr s) = length s"
| "found_len (FTup gs) = length gs"

fun item :: "found \<Rightarrow> nat \<Rightarrow> string" where
  "item (FStr s) i = [s ! i]"
| "item (FTup gs) i = gs ! i"

fun found_int :: "found \<Rightarrow> py_error + int" where
  "found_int (FStr s) = py_int s"
| "found_int (FTup gs) =
     Inl (TypeError (''int() argument must be a string, a bytes-like object or a real number, not ''
                     @ quoted ''tuple''))"

text \<open>The inner loop \<^verbatim>\<open>for match in matches\<close> of the year-range branch.\<close>

fun add_ranges :: "found list \<Rightarrow> int \<Rightarrow> py_error + int" where
  "add_ranges [] total_years = Inr total_years"
| "add_ranges (m # ms) total_years =
     (if found_len m = 2 then
        (case py_int (item m 0) of Inl e \<Rightarrow> Inl e
         | Inr start_year \<Rightarrow>
        (case (if isdigit (item m 1) then py_int (item m 1) else Inr 2024) of Inl e \<Rightarrow> Inl e
         | Inr end_year \<Rightarrow> add_ranges ms (total_years + (end_year - start_year))))
      else add_ranges ms total_years)"

text \<open>One round of \<^verbatim>\<open>for pattern in year_patterns\<close>.\<close>

definition years_step :: "string \<Rightarrow> regex \<Rightarrow> int \<Rightarrow> py_error + int" where
  "years_step work_exp pattern total_years =
     (case re_findall pattern work_exp of
        [] \<Rightarrow> Inr total_years
      | m0 # rest \<Rightarrow>
          if found_len m0 = 1 then
            (case found_int m0 of Inl e \<Rightarrow> Inl e | Inr n \<Rightarrow> Inr (max total_years n))
          else add_ranges (m0 # rest) total_years)"

fun years_loop :: "string \<Rightarrow> regex list \<Rightarrow> int \<Rightarrow> py_error + int" where
  "years_loop work_exp [] total_years = Inr total_years"
| "years_loop work_exp (pattern # patterns) total_years =
     (case years_step work_exp pattern total_years of Inl e \<Rightarrow> Inl e
      | Inr total_years' \<Rightarrow> years_loop work_exp patterns total_years')"

definition years_to_score :: "int \<Rightarrow> real" where
  "years_to_score total_years =
     (if total_years \<ge> 10 then 100
      else if total_years \<ge> 7 then 90
      else if total_years \<ge> 5 then 80
      else if total_years \<ge> 3 then 70
      else if total_years \<ge> 1 then 60
      else 30)"

text \<open>The years the loop arrives at for a work-history text, and the score.\<close>

definition total_years_of :: "string \<Rightarrow> py_error + int" where
  "total_years_of work_experience = years_loop (lower work_experience) year_patterns 0"

definition calculate_years_score :: "text_record \<Rightarrow> py_error + real" where
  "calculate_years_score resume_data =
     (case str_get resume_data ''work_experience'' of Inl e \<Rightarrow> Inl e
      | Inr work_experience \<Rightarrow>
     (case total_years_of work_experience of Inl e \<Rightarrow> Inl e
      | Inr total_years \<Rightarrow> Inr (years_to_score total_years)))"

definition calculate_role_relevance :: "'a \<Rightarrow> real" where
  "calculate_role_relevance experience_analysis = 75"

definition calculate_industry_match :: "'a \<Rightarrow> real" where
  "calculate_industry_match experience_analysis = 70"

text \<open>\<^verbatim>\<open>indicator in text\<close> is \<^const>\<open>sublist\<close>; the loops add a fixed amount per indicator found.\<close>

definition count_indicators :: "string list \<Rightarrow> string \<Rightarrow> nat" where
  "count_indicators indicators text = length (filter (\<lambda>indicator. sublist indicator text) indicators)"

definition progression_indicators :: "string list" where
  "progression_indicators =
     [''promoted'', ''senior'', ''lead'', ''manager'', ''director'',
      ''principal'', ''architect'', ''head of'', ''chief'']"

definition calculate_career_progression :: "text_record \<Rightarrow> py_error + real" where
  "calculate_career_progression resume_data =
     (case str_get resume_data ''work_experience'' of Inl e \<Rightarrow> Inl e
      | Inr work_experience \<Rightarrow>
          Inr (min (50 + 10 * real (count_indicators progression_indicators
                                      (lower work_experience))) 100))"

record experience_breakdown = breakdown +
  years_of_experience :: real
  role_relevance :: real
  industry_match :: real
  career_progression :: real

definition experience_init :: experience_breakdown where
  "experience_init = \<lparr>total_score = 0, error = None, years_of_experience = 0,
                       role_relevance = 0, industry_match = 0, career_progression = 0\<rparr>"

definition experience_try ::
  "'a \<Rightarrow> text_record \<Rightarrow> experience_breakdown \<Rightarrow> experience_breakdown \<times> py_error option" where
  "experience_try experience_analysis resume_data sb =
     (case calculate_years_score resume_data of Inl e \<Rightarrow> (sb, Some e)
      | Inr years_score \<Rightarrow>
     (let sb1 = sb\<lparr>years_of_experience := years_score\<rparr>;
          role_score = calculate_role_relevance experience_analysis;
          sb2 = sb1\<lparr>role_relevance := role_score\<rparr>;
          industry_score = calculate_industry_match experience_analysis;
          sb3 = sb2\<lparr>industry_match := industry_score\<rparr> in
      case calculate_career_progression resume_data of Inl e \<Rightarrow> (sb3, Some e)
      | Inr progression_score \<Rightarrow>
     (let sb4 = sb3\<lparr>career_progression := progression_score\<rparr>;
          total = years_score * (3 / 10) + role_score * (4 / 10)
                    + industry_score * (2 / 10) + progression_score * (1 / 10)
      in (sb4\<lparr>total_score := py_round2 total\<rparr>, None))))"

definition calculate_experience_score :: "'a \<Rightarrow> text_record \<Rightarrow> experience_breakdown" where
  "calculate_experience_score experience_analysis resume_data =
     (case experience_try experience_analysis resume_data experience_init of
        (sb, None) \<Rightarrow> sb
      | (sb, Some e) \<Rightarrow>
          sb\<lparr>error := Some (''Experience scoring error: '' @ str_of_error e),
             total_score := 0\<rparr>)"

subsection \<open>Education score (\<^verbatim>\<open>ScoringEngine.calculate_education_score\<close>)\<close>

definition degree_levels :: "string list" where
  "degree_levels = [''phd'', ''doctorate'', ''master'', ''bachelor'', ''associate'']"

definition degree_scores :: "(string \<times> int) list" where
  "degree_scores = [(''associate'', 1), (''bachelor'', 2), (''master'', 3),
                    (''doctorate'', 4), (''phd'', 4)]"

text \<open>The first degree word, in the order of \<open>degree_levels\<close>, that the text contains.\<close>

definition first_degree :: "string \<Rightarrow> string option" where
  "first_degree text = find (\<lambda>degree. sublist degree text) degree_levels"

definition calculate_degree_match :: "string \<Rightarrow> string \<Rightarrow> real" where
  "calculate_degree_match education_text jd_education =
     (case first_degree jd_education of
        None \<Rightarrow> 80
      | Some required_degree \<Rightarrow>
     (case first_degree education_text of
        None \<Rightarrow> 30
      | Some candidate_degree \<Rightarrow>
          (let candidate_level = dict_get degree_scores candidate_degree 0;
               required_level = dict_get degree_scores required_degree 0
           in if candidate_level \<ge> required_level then 100
              else if candidate_level = required_level - 1 then 70
              else 40)))"

definition tech_fields :: "string list" where
  "tech_fields =
     [''computer science'', ''software'', ''engineering'', ''technology'',
      ''information systems'', ''data science'', ''mathematics'', ''statistics'']"

definition calculate_field_relevance :: "string \<Rightarrow> string \<Rightarrow> real" where
  "calculate_field_relevance education_text jd_education =
     (let candidate_has_tech = list_ex (\<lambda>field. sublist field education_text) tech_fields;
          jd_requires_tech = list_ex (\<lambda>field. sublist field jd_education) tech_fields
      in if \<not> jd_requires_tech then 80
         else if candidate_has_tech then 90
         else 50)"

definition cert_indicators :: "string list" where
  "cert_indicators =
     [''certified'', ''certification'', ''aws'', ''azure'', ''google cloud'',
      ''pmp'', ''scrum master'', ''agile'', ''itil'', ''cissp'']"

definition calculate_certification_score :: "text_record \<Rightarrow> py_error + real" where
  "calculate_certification_score resume_data =
     (case str_get resume_data ''achievements'' of Inl e \<Rightarrow> Inl e
      | Inr achievements \<Rightarrow>
          Inr (min (real (count_indicators cert_indicators (lower achievements)) * 20) 100))"

record education_breakdown = breakdown +
  degree_match :: real
  institution_quality :: real
  field_relevance :: real
  certifications :: real

definition education_init :: education_breakdown where
  "education_init = \<lparr>total_score = 0, error = None, degree_match = 0,
                      institution_quality = 0, field_relevance = 0, certifications = 0\<rparr>"

definition education_try ::
  "text_record \<Rightarrow> text_record \<Rightarrow> education_breakdown \<Rightarrow> education_breakdown \<times> py_error option"
  where
  "education_try resume_data jd_data sb =
     (case str_get resume_data ''education'' of Inl e \<Rightarrow> (sb, Some e)
      | Inr education \<Rightarrow>
     (case str_get jd_data ''educational_requirements'' of Inl e \<Rightarrow> (sb, Some e)
      | Inr requirements \<Rightarrow>
     (let education_text = lower education;
          jd_education = lower requirements;
          degree_score = calculate_degree_match education_text jd_education;
          sb1 = sb\<lparr>degree_match := degree_score\<rparr>;
          field_score = calculate_field_relevance education_text jd_education;
          sb2 = sb1\<lparr>field_relevance := field_score\<rparr> in
      case calculate_certification_score resume_data of Inl e \<Rightarrow> (sb2, Some e)
      | Inr cert_score \<Rightarrow>
     (let sb3 = sb2\<lparr>certifications := cert_score\<rparr>;
          total = degree_score * (4 / 10) + field_score * (4 / 10) + cert_score * (2 / 10)
      in (sb3\<lparr>total_score := py_round2 total\<rparr>, None)))))"

definition calculate_education_score :: "text_record \<Rightarrow> text_record \<Rightarrow> education_breakdown" where
  "calculate_education_score resume_data jd_data =
     (case education_try resume_data jd_data education_init of
        (sb, None) \<Rightarrow> sb
      | (sb, Some e) \<Rightarrow>
          sb\<lparr>error := Some (''Education scoring error: '' @ str_of_error e),
             total_score := 0\<rparr>)"

subsection \<open>Overall score (\<^verbatim>\<open>ScoringEngine.calculate_overall_score\<close>)\<close>

definition achievement_indicators :: "string list" where
  "achievement_indicators =
     [''award'', ''recognition'', ''published'', ''patent'', ''led team'',
      ''increased'', ''improved'', ''reduced'', ''saved'', ''grew'', ''built'']"

definition calculate_achievements_score :: "text_record \<Rightarrow> py_error + real" where
  "calculate_achievements_score resume_data =
     (case str_get resume_data ''achievements'' of Inl e \<Rightarrow> Inl e
      | Inr achievements \<Rightarrow>
          Inr (min (50 + 8 * real (count_indicators achievement_indicators
                                     (lower achievements))) 100))"

text \<open>
  The three helpers below read \<^verbatim>\<open>total_score\<close> again; they are called once the weighted sum
  has been computed, so the totals are numbers, and they take them as such.
\<close>

definition identify_risk_factors :: "real \<Rightarrow> real \<Rightarrow> real \<Rightarrow> string list" where
  "identify_risk_factors skills_total experience_total education_total =
     (if skills_total < 60 then [''Significant technical skill gaps''] else [])
     @ (if experience_total < 50 then [''Limited relevant experience''] else [])
     @ (if education_total < 40 then [''Educational background concerns''] else [])"

definition identify_strengths :: "real \<Rightarrow> real \<Rightarrow> real \<Rightarrow> string list" where
  "identify_strengths skills_total experience_total education_total =
     (if skills_total \<ge> 80 then [''Strong technical skills''] else [])
     @ (if experience_total \<ge> 80 then [''Extensive relevant experience''] else [])
     @ (if education_total \<ge> 80 then [''Strong educational background''] else [])"

definition calculate_confidence :: "real \<Rightarrow> real \<Rightarrow> real \<Rightarrow> string" where
  "calculate_confidence overall skills_total experience_total =
     (let score_variance = max skills_total experience_total - min skills_total experience_total
      in if score_variance < 20 \<and> (overall > 80 \<or> overall < 40) then ''High''
         else if score_variance < 30 then ''Medium''
         else ''Low'')"

text \<open>The entry \<^verbatim>\<open>component_scores\<close>, its keys prefixed.\<close>

record component_scores =
  c_skills :: real
  c_experience :: real
  c_education :: real
  c_achievements :: real

text \<open>
  The final result; \<open>final_overall_score\<close> is the entry \<^verbatim>\<open>overall_score\<close> (the plain name is
  the field of the match result), and the three breakdowns it repeats are its arguments.
\<close>

record overall_result =
  final_overall_score :: real
  components :: component_scores
  recommended :: recommendation
  risk_factors :: "string list"
  strengths :: "string list"
  decision_confidence :: string

text \<open>
  There is no \<^verbatim>\<open>try\<close> in this function: an exception leaves it. The products of the
  weighted sum are evaluated from left to right.
\<close>

definition calculate_overall_score ::
  "scoring_engine \<Rightarrow> pyval \<Rightarrow> pyval \<Rightarrow> pyval \<Rightarrow> text_record \<Rightarrow> py_error + overall_result"
  where
  "calculate_overall_score self skills_score experience_score education_score resume_data =
     (case py_get skills_score ''total_score'' (PInt 0) of Inl e \<Rightarrow> Inl e
      | Inr skills_total \<Rightarrow>
     (case py_get experience_score ''total_score'' (PInt 0) of Inl e \<Rightarrow> Inl e
      | Inr experience_total \<Rightarrow>
     (case py_get education_score ''total_score'' (PInt 0) of Inl e \<Rightarrow> Inl e
      | Inr education_total \<Rightarrow>
     (case calculate_achievements_score resume_data of Inl e \<Rightarrow> Inl e
      | Inr achievements_score \<Rightarrow>
     (case py_times_float skills_total (w_skills (weights self)) of Inl e \<Rightarrow> Inl e
      | Inr (s, s_weighted) \<Rightarrow>
     (case py_times_float experience_total (w_experience (weights self)) of Inl e \<Rightarrow> Inl e
      | Inr (x, x_weighted) \<Rightarrow>
     (case py_times_float education_total (w_education (weights self)) of Inl e \<Rightarrow> Inl e
      | Inr (d, d_weighted) \<Rightarrow>
     (let overall = s_weighted + x_weighted + d_weighted
                      + achievements_score * w_achievements (weights self)
      in Inr \<lparr>final_overall_score = py_round2 overall,
               components = \<lparr>c_skills = s, c_experience = x, c_education = d,
                              c_achievements = achievements_score\<rparr>,
               recommended = generate_recommendation self overall,
               risk_factors = identify_risk_factors s x d,
               strengths = identify_strengths s x d,
               decision_confidence = calculate_confidence overall s x\<rparr>))))))))"

text \<open>The breakdowns as the dicts the three functions return, for the call above.\<close>

definition error_items :: "string option \<Rightarrow> (string \<times> pyval) list" where
  "error_items err = (case err of None \<Rightarrow> [] | Some m \<Rightarrow> [(''error'', PStr m)])"

definition skills_to_py :: "skills_breakdown \<Rightarrow> pyval" where
  "skills_to_py sb =
     PDict ([(''technical_skills'', PFloat (technical_skills sb)),
             (''skill_depth'', PFloat (skill_depth sb)),
             (''skill_relevance'', PFloat (skill_relevance sb)),
             (''total_score'', PFloat (total_score sb)),
             (''details'',
                (case details sb of None \<Rightarrow> PDict []
                 | Some d \<Rightarrow>
                     PDict [(''exact_matches_count'', PInt (int (exact_matches_count d))),
                            (''missing_critical_skills'', PInt (int (missing_critical_skills d))),
                            (''overall_match_percentage'', overall_match_percentage d)]))]
            @ error_items (error sb))"

definition experience_to_py :: "experience_breakdown \<Rightarrow> pyval" where
  "experience_to_py sb =
     PDict ([(''years_of_experience'', PFloat (years_of_experience sb)),
             (''role_relevance'', PFloat (role_relevance sb)),
             (''industry_match'', PFloat (industry_match sb)),
             (''career_progression'', PFloat (career_progression sb)),
             (''total_score'', PFloat (total_score sb)),
             (''details'', PDict [])]
            @ error_items (error sb))"

definition education_to_py :: "education_breakdown \<Rightarrow> pyval" where
  "education_to_py sb =
     PDict ([(''degree_match'', PFloat (degree_match sb)),
             (''institution_quality'', PFloat (institution_quality sb)),
             (''field_relevance'', PFloat (field_relevance sb)),
             (''certifications'', PFloat (certifications sb)),
             (''total_score'', PFloat (total_score sb))]
            @ error_items (error sb))"

section \<open>Properties\<close>

subsection \<open>The loop of the match calculator\<close>

lemma length_py_set: "length (py_set xs) = card (set xs)"
  by (simp add: py_set_def length_remdups_card_conv)

lemma py_set_Nil_iff: "py_set xs = [] \<longleftrightarrow> xs = []"
  by (simp add: py_set_def)

lemma set_py_set: "set (py_set xs) = set xs"
  by (simp add: py_set_def)

lemma distinct_py_set: "distinct (py_set xs)"
  by (simp add: py_set_def)

lemma set_intersection: "set (intersection a b) = set a \<inter> set b"
  by (auto simp: intersection_def)

lemma set_difference: "set (difference a b) = set a - set b"
  by (auto simp: difference_def)

lemma length_intersection_py_set:
  "length (intersection (py_set a) (py_set b)) = card (set a \<inter> set b)"
proof -
  have "distinct (intersection (py_set a) (py_set b))"
    by (simp add: intersection_def distinct_py_set)
  then have "length (intersection (py_set a) (py_set b)) = card (set (intersection (py_set a) (py_set b)))"
    by (simp add: distinct_card)
  then show ?thesis
    by (simp add: set_intersection set_py_set)
qed

lemma map_of_dict_set: "map_of (dict_set d k v) = (map_of d)(k \<mapsto> v)"
  by (simp add: dict_set_def update_conv')

lemma match_category_scores:
  "map_of (category_scores_acc (match_category c r cat st)) k =
     (if k = cat \<and> dict_get r cat [] \<noteq> [] then Some (category_score_of c r cat)
      else map_of (category_scores_acc st) k)"
  by (simp add: match_category_def Let_def py_set_Nil_iff map_of_dict_set
      length_py_set length_intersection_py_set category_score_of_def)

lemma match_loop_scores:
  "map_of (category_scores_acc (match_loop c r cats st)) k =
     (if k \<in> set cats \<and> dict_get r k [] \<noteq> [] then Some (category_score_of c r k)
      else map_of (category_scores_acc st) k)"
  by (induction cats arbitrary: st) (auto simp: match_category_scores)

lemma match_category_exact:
  "map_of (exact_matches (result (match_category c r cat st))) k =
     (if k = cat \<and> dict_get r cat [] \<noteq> []
      then Some (intersection (py_set (dict_get c cat [])) (py_set (dict_get r cat [])))
      else map_of (exact_matches (result st)) k)"
  by (simp add: match_category_def Let_def py_set_Nil_iff map_of_dict_set)

lemma match_loop_exact:
  "map_of (exact_matches (result (match_loop c r cats st))) k =
     (if k \<in> set cats \<and> dict_get r k [] \<noteq> []
      then Some (intersection (py_set (dict_get c k [])) (py_set (dict_get r k [])))
      else map_of (exact_matches (result st)) k)"
  by (induction cats arbitrary: st) (auto simp: match_category_exact)

lemma match_category_missing:
  "map_of (missing_skills (result (match_category c r cat st))) k =
     (if k = cat \<and> dict_get r cat [] \<noteq> []
      then Some (difference (py_set (dict_get r cat [])) (py_set (dict_get c cat [])))
      else map_of (missing_skills (result st)) k)"
  by (simp add: match_category_def Let_def py_set_Nil_iff map_of_dict_set)

lemma match_loop_missing:
  "map_of (missing_skills (result (match_loop c r cats st))) k =
     (if k \<in> set cats \<and> dict_get r k [] \<noteq> []
      then Some (difference (py_set (dict_get r k [])) (py_set (dict_get c k [])))
      else map_of (missing_skills (result st)) k)"
  by (induction cats arbitrary: st) (auto simp: match_category_missing)

lemma match_loop_required:
  "total_required_count (match_loop c r cats st) =
     total_required_count st + (\<Sum>k\<leftarrow>cats. card (set (dict_get r k [])))"
  by (induction cats arbitrary: st)
     (auto simp: match_category_def Let_def py_set_Nil_iff length_py_set)

lemma match_loop_matched:
  "total_matched_count (match_loop c r cats st) =
     total_matched_count st
       + (\<Sum>k\<leftarrow>cats. card (set (dict_get c k []) \<inter> set (dict_get r k [])))"
  by (induction cats arbitrary: st)
     (auto simp: match_category_def Let_def py_set_Nil_iff length_py_set
        length_intersection_py_set)

lemma match_loop_overall:
  "overall_score (result (match_loop c r cats st)) = overall_score (result st)"
  by (induction cats arbitrary: st) (auto simp: match_category_def Let_def)

lemma dict_get_nonempty_key: "dict_get r k [] \<noteq> [] \<Longrightarrow> k \<in> set (map fst r)"
  by (auto simp: dict_get_def split: option.splits dest: map_of_SomeD intro: rev_image_eqI)

subsection \<open>Recommendation thresholds\<close>

text \<open>
  Claim C6. With the default thresholds (hire 70, strong hire 85) the decision and its
  confidence are: at least 85, Strong Hire / High; at least 70, Hire / Medium-High; at
  least 50, Maybe / Medium; below 50, Don't Hire / High. At the boundaries 85.0 is a Strong
  Hire, 84.99 a Hire, 69.99 a Maybe and 49.99 a Don't Hire.
\<close>

theorem recommendation_default_thresholds:
  "hire_threshold (ScoringEngine Config) = 70
   \<and> strong_hire_threshold (ScoringEngine Config) = 85
   \<and> (decision (generate_recommendation (ScoringEngine Config) x),
       confidence (generate_recommendation (ScoringEngine Config) x)) =
      (if x \<ge> 85 then (''Strong Hire'', ''High'')
       else if x \<ge> 70 then (''Hire'', ''Medium-High'')
       else if x \<ge> 50 then (''Maybe'', ''Medium'')
       else (''Don't Hire'', ''High''))
   \<and> decision (generate_recommendation (ScoringEngine Config) 85) = ''Strong Hire''
   \<and> decision (generate_recommendation (ScoringEngine Config) (8499 / 100)) = ''Hire''
   \<and> decision (generate_recommendation (ScoringEngine Config) (6999 / 100)) = ''Maybe''
   \<and> decision (generate_recommendation (ScoringEngine Config) (4999 / 100)) = ''Don't Hire''"
  by (simp add: generate_recommendation_def ScoringEngine_def Config_def)

subsection \<open>The total of matches counts the exact matches\<close>

lemma dict_set_fresh: "k \<notin> fst ` set d \<Longrightarrow> dict_set d k v = d @ [(k, v)]"
  by (induction d) (auto simp: dict_set_def)

lemma count_skills_append: "count_skills (a @ b) = count_skills a + count_skills b"
  by (simp add: count_skills_def)

lemma match_category_keys:
  "fst ` set (exact_matches (result (match_category c r cat st)))
     \<subseteq> insert cat (fst ` set (exact_matches (result st)))"
  by (auto simp: match_category_def Let_def dict_set_def dom_update)

lemma match_category_count:
  assumes "cat \<notin> fst ` set (exact_matches (result st))"
    and "total_matched_count st = count_skills (exact_matches (result st))"
  shows "total_matched_count (match_category c r cat st) =
         count_skills (exact_matches (result (match_category c r cat st)))"
  using assms
  by (simp add: match_category_def Let_def dict_set_fresh count_skills_append count_skills_def)

lemma match_loop_count:
  assumes "distinct cats" and "set cats \<inter> fst ` set (exact_matches (result st)) = {}"
    and "total_matched_count st = count_skills (exact_matches (result st))"
  shows "total_matched_count (match_loop c r cats st) =
         count_skills (exact_matches (result (match_loop c r cats st)))"
  using assms
proof (induction cats arbitrary: st)
  case Nil
  then show ?case by simp
next
  case (Cons cat cats)
  have fresh: "cat \<notin> fst ` set (exact_matches (result st))"
    using Cons.prems(2) by auto
  have "set cats \<inter> fst ` set (exact_matches (result (match_category c r cat st))) = {}"
    using match_category_keys [of c r cat st] Cons.prems(1,2) by auto
  moreover have "total_matched_count (match_category c r cat st) =
         count_skills (exact_matches (result (match_category c r cat st)))"
    using fresh Cons.prems(3) by (rule match_category_count)
  moreover have "distinct cats" using Cons.prems(1) by simp
  ultimately show ?case
    using Cons.IH [of "match_category c r cat st"] by simp
qed

lemma total_matched_counts_exact:
  "total_matched (calculate_skill_match_score c r) =
     count_skills (exact_matches (calculate_skill_match_score c r))"
proof -
  have "total_matched_count (match_loop c r (py_set (map fst c @ map fst r)) match_init) =
      count_skills (exact_matches (result
        (match_loop c r (py_set (map fst c @ map fst r)) match_init)))"
    by (rule match_loop_count) (simp_all add: distinct_py_set match_init_def count_skills_def)
  then show ?thesis
    by (simp add: calculate_skill_match_score_def Let_def)
qed

subsection \<open>Match scores\<close>

text \<open>
  Claim C4. The match calculator goes through the union of the categories of both maps and
  skips a category whose required set is empty, so that such a category has no entry in
  \<open>category_scores\<close> (nor in the exact matches or the missing skills). For any other
  category the exact matches are the intersection, the missing skills the difference, and
  the category score is the number of exact matches divided by the number of required
  skills, times 100. The total of matches is the number of exact matches the result lists,
  the total required the number of required skills over all categories, and the overall
  score is the first over the second, times 100, and 0 when nothing is required. For
  candidate
  \<open>{programming_languages: {python, java}}\<close> against required
  \<open>{programming_languages: {python, javascript}}\<close> the exact matches are \<open>{python}\<close>, the
  missing skills \<open>{javascript}\<close>, and both scores are 50.
\<close>

theorem match_scores_formula:
  "map_of (category_scores (calculate_skill_match_score c r)) cat =
     (if set (dict_get r cat []) = {} then None
      else Some (real (card (set (dict_get c cat []) \<inter> set (dict_get r cat [])))
                  / real (card (set (dict_get r cat []))) * 100))
   \<and> map_option set (map_of (exact_matches (calculate_skill_match_score c r)) cat) =
     (if set (dict_get r cat []) = {} then None
      else Some (set (dict_get c cat []) \<inter> set (dict_get r cat [])))
   \<and> map_option set (map_of (missing_skills (calculate_skill_match_score c r)) cat) =
     (if set (dict_get r cat []) = {} then None
      else Some (set (dict_get r cat []) - set (dict_get c cat [])))
   \<and> total_matched (calculate_skill_match_score c r) =
       (\<Sum>k\<leftarrow>remdups (map fst c @ map fst r).
          card (set (dict_get c k []) \<inter> set (dict_get r k [])))
   \<and> total_matched (calculate_skill_match_score c r) =
       count_skills (exact_matches (calculate_skill_match_score c r))
   \<and> total_required (calculate_skill_match_score c r) =
       (\<Sum>k\<leftarrow>remdups (map fst c @ map fst r). card (set (dict_get r k [])))
   \<and> overall_score (calculate_skill_match_score c r) =
       (if total_required (calculate_skill_match_score c r) = 0 then 0
        else real (total_matched (calculate_skill_match_score c r))
               / real (total_required (calculate_skill_match_score c r)) * 100)
   \<and> calculate_skill_match_score
        [(''programming_languages'', [''python'', ''java''])]
        [(''programming_languages'', [''python'', ''javascript''])] =
       \<lparr>exact_matches = [(''programming_languages'', [''python''])],
        partial_matches = [],
        missing_skills = [(''programming_languages'', [''javascript''])],
        category_scores = [(''programming_languages'', 50)],
        overall_score = 50, total_required = 2, total_matched = 1\<rparr>"
proof -
  let ?cats = "py_set (map fst c @ map fst r)"
  let ?st = "match_loop c r ?cats match_init"
  have key: "dict_get r cat [] \<noteq> [] \<Longrightarrow> cat \<in> set ?cats"
    using dict_get_nonempty_key [of r cat] by (simp add: set_py_set)
  have scores: "category_scores (calculate_skill_match_score c r) = category_scores_acc ?st"
    by (simp add: calculate_skill_match_score_def Let_def)
  have exact: "exact_matches (calculate_skill_match_score c r) = exact_matches (result ?st)"
    by (simp add: calculate_skill_match_score_def Let_def)
  have missing: "missing_skills (calculate_skill_match_score c r) = missing_skills (result ?st)"
    by (simp add: calculate_skill_match_score_def Let_def)
  have matched: "total_matched (calculate_skill_match_score c r) = total_matched_count ?st"
    by (simp add: calculate_skill_match_score_def Let_def)
  have required: "total_required (calculate_skill_match_score c r) = total_required_count ?st"
    by (simp add: calculate_skill_match_score_def Let_def)
  have overall: "overall_score (calculate_skill_match_score c r) =
      (if total_required_count ?st = 0 then 0
       else real (total_matched_count ?st) / real (total_required_count ?st) * 100)"
    by (simp add: calculate_skill_match_score_def Let_def match_init_def match_loop_overall)
  have 1: "map_of (category_scores (calculate_skill_match_score c r)) cat =
     (if set (dict_get r cat []) = {} then None
      else Some (real (card (set (dict_get c cat []) \<inter> set (dict_get r cat [])))
                  / real (card (set (dict_get r cat []))) * 100))"
    using key by (auto simp: scores match_loop_scores category_score_of_def match_init_def)
  have 2: "map_option set (map_of (exact_matches (calculate_skill_match_score c r)) cat) =
     (if set (dict_get r cat []) = {} then None
      else Some (set (dict_get c cat []) \<inter> set (dict_get r cat [])))"
    using key by (auto simp: exact match_loop_exact match_init_def set_intersection set_py_set)
  have 3: "map_option set (map_of (missing_skills (calculate_skill_match_score c r)) cat) =
     (if set (dict_get r cat []) = {} then None
      else Some (set (dict_get r cat []) - set (dict_get c cat [])))"
    using key by (auto simp: missing match_loop_missing match_init_def set_difference set_py_set)
  have 4: "total_matched (calculate_skill_match_score c r) =
       (\<Sum>k\<leftarrow>remdups (map fst c @ map fst r).
          card (set (dict_get c k []) \<inter> set (dict_get r k [])))"
    by (simp add: matched match_loop_matched match_init_def py_set_def)
  note counted = total_matched_counts_exact [of c r]
  have 5: "total_required (calculate_skill_match_score c r) =
       (\<Sum>k\<leftarrow>remdups (map fst c @ map fst r). card (set (dict_get r k [])))"
    by (simp add: required match_loop_required match_init_def py_set_def)
  have 6: "overall_score (calculate_skill_match_score c r) =
       (if total_required (calculate_skill_match_score c r) = 0 then 0
        else real (total_matched (calculate_skill_match_score c r))
               / real (total_required (calculate_skill_match_score c r)) * 100)"
    by (simp add: overall matched required)
  have 7: "calculate_skill_match_score
        [(''programming_languages'', [''python'', ''java''])]
        [(''programming_languages'', [''python'', ''javascript''])] =
       \<lparr>exact_matches = [(''programming_languages'', [''python''])],
        partial_matches = [],
        missing_skills = [(''programming_languages'', [''javascript''])],
        category_scores = [(''programming_languages'', 50)],
        overall_score = 50, total_required = 2, total_matched = 1\<rparr>"
    by (simp add: calculate_skill_match_score_def match_category_def match_init_def py_set_def
        dict_get_def dict_set_def intersection_def difference_def)
  show ?thesis
    by (intro conjI) (rule 1 2 3 4 counted 5 6 7)+
qed

lemma category_scores_lookup:
  "map_of (category_scores (calculate_skill_match_score c r)) cat =
     (if dict_get r cat [] = [] then None else Some (category_score_of c r cat))"
proof -
  have "dict_get r cat [] \<noteq> [] \<Longrightarrow> cat \<in> set (py_set (map fst c @ map fst r))"
    using dict_get_nonempty_key [of r cat] by (simp add: set_py_set)
  then show ?thesis
    by (auto simp: calculate_skill_match_score_def Let_def match_loop_scores match_init_def)
qed

lemma category_score_of_mono:
  assumes "set (dict_get c cat []) \<subseteq> set (dict_get c' cat [])"
  shows "category_score_of c r cat \<le> category_score_of c' r cat"
proof -
  let ?R = "set (dict_get r cat [])"
  have "set (dict_get c cat []) \<inter> ?R \<subseteq> set (dict_get c' cat []) \<inter> ?R"
    using assms by blast
  then have "card (set (dict_get c cat []) \<inter> ?R) \<le> card (set (dict_get c' cat []) \<inter> ?R)"
    by (intro card_mono) auto
  then show ?thesis
    by (simp add: category_score_of_def divide_right_mono)
qed

text \<open>
  Claim C8. For a category whose required set is not empty, adding to the candidate's set
  for that category an element of the required set never decreases the category's score in
  the match result: with any candidate map \<open>c'\<close> whose set for the category is that of
  \<open>c\<close> with \<open>x\<close> added, the score for \<open>c'\<close> is at least the score for \<open>c\<close>.
\<close>

theorem category_score_monotone:
  assumes "set (dict_get r cat []) \<noteq> {}"
    and "x \<in> set (dict_get r cat [])"
    and "set (dict_get c' cat []) = insert x (set (dict_get c cat []))"
  shows "\<exists>s s'. map_of (category_scores (calculate_skill_match_score c r)) cat = Some s
           \<and> map_of (category_scores (calculate_skill_match_score c' r)) cat = Some s'
           \<and> s \<le> s'"
proof -
  have "set (dict_get c cat []) \<subseteq> set (dict_get c' cat [])"
    using assms(3) by blast
  then have "category_score_of c r cat \<le> category_score_of c' r cat"
    by (rule category_score_of_mono)
  moreover have "dict_get r cat [] \<noteq> []"
    using assms(1) by auto
  ultimately show ?thesis
    by (simp add: category_scores_lookup)
qed

theorem category_score_monotone_witness:
  "set (dict_get [(''programming_languages'', [''python'', ''javascript''])]
          ''programming_languages'' []) \<noteq> {}
   \<and> ''python'' \<in> set (dict_get [(''programming_languages'', [''python'', ''javascript''])]
          ''programming_languages'' [])
   \<and> set (dict_get [(''programming_languages'', [''java'', ''python''])]
          ''programming_languages'' []) =
       insert ''python'' (set (dict_get [(''programming_languages'', [''java''])]
          ''programming_languages'' []))
   \<and> (\<exists>s s'. map_of (category_scores (calculate_skill_match_score
                  [(''programming_languages'', [''java''])]
                  [(''programming_languages'', [''python'', ''javascript''])]))
                ''programming_languages'' = Some s
           \<and> map_of (category_scores (calculate_skill_match_score
                  [(''programming_languages'', [''java'', ''python''])]
                  [(''programming_languages'', [''python'', ''javascript''])]))
                ''programming_languages'' = Some s'
           \<and> s \<le> s')"
proof -
  have h1: "set (dict_get [(''programming_languages'', [''python'', ''javascript''])]
          ''programming_languages'' []) \<noteq> {}"
    by (simp add: dict_get_def)
  have h2: "''python'' \<in> set (dict_get [(''programming_languages'', [''python'', ''javascript''])]
          ''programming_languages'' [])"
    by (simp add: dict_get_def)
  have h3: "set (dict_get [(''programming_languages'', [''java'', ''python''])]
          ''programming_languages'' []) =
       insert ''python'' (set (dict_get [(''programming_languages'', [''java''])]
          ''programming_languages'' []))"
    by (auto simp: dict_get_def)
  show ?thesis
    using category_score_monotone [OF h1 h2 h3] h1 h2 h3 by blast
qed

subsection \<open>The search for a skill pattern\<close>

lemma rmatch_literal:
  "rmatch (literal s) (p, xs) =
     (if prefix s xs then [([], s, (last_opt p s, drop (length s) xs))] else [])"
proof (induction s arbitrary: p xs)
  case Nil
  then show ?case by (simp add: last_opt_def)
next
  case (Cons c s)
  show ?case
  proof (cases xs)
    case Nil
    then show ?thesis by simp
  next
    case (Cons x xs')
    then show ?thesis
      using Cons.IH [of "Some x" xs'] by (auto simp: last_opt_def)
  qed
qed

lemma rmatch_skill_pattern:
  "rmatch (Cat WordB (Cat (literal s) WordB)) (p, xs) \<noteq> [] \<longleftrightarrow>
     prefix s xs \<and> at_boundary (p, xs) \<and> at_boundary (last_opt p s, drop (length s) xs)"
  by (auto simp: rmatch_literal)

lemma search_from_iff:
  "search_from r p xs \<longleftrightarrow>
     (\<exists>pre post. xs = pre @ post \<and> rmatch r (last_opt p pre, post) \<noteq> [])"
proof (induction xs arbitrary: p)
  case Nil
  then show ?case by (simp add: last_opt_def)
next
  case (Cons x xs)
  have "(\<exists>pre post. x # xs = pre @ post \<and> rmatch r (last_opt p pre, post) \<noteq> []) \<longleftrightarrow>
        rmatch r (p, x # xs) \<noteq> []
        \<or> (\<exists>pre' post. xs = pre' @ post \<and> rmatch r (last_opt (Some x) pre', post) \<noteq> [])"
    (is "?L \<longleftrightarrow> ?A \<or> ?B")
  proof
    assume ?L
    then obtain pre post where e: "x # xs = pre @ post"
      and m: "rmatch r (last_opt p pre, post) \<noteq> []" by blast
    show "?A \<or> ?B"
    proof (cases pre)
      case Nil
      with e m show ?thesis by (simp add: last_opt_def)
    next
      case (Cons y pre')
      with e have "xs = pre' @ post" and "y = x" by simp_all
      moreover from m Cons have "rmatch r (last_opt (Some x) pre', post) \<noteq> []"
        by (simp add: last_opt_def \<open>y = x\<close> split: if_splits)
      ultimately show ?thesis by blast
    qed
  next
    assume "?A \<or> ?B"
    then show ?L
    proof
      assume ?A
      then have "x # xs = [] @ (x # xs) \<and> rmatch r (last_opt p [], x # xs) \<noteq> []"
        by (simp add: last_opt_def)
      then show ?L by blast
    next
      assume ?B
      then obtain pre' post where e: "xs = pre' @ post"
        and m: "rmatch r (last_opt (Some x) pre', post) \<noteq> []" by blast
      have "x # xs = (x # pre') @ post" using e by simp
      moreover have "rmatch r (last_opt p (x # pre'), post) \<noteq> []"
        using m by (auto simp: last_opt_def)
      ultimately show ?L by blast
    qed
  qed
  then show ?case by (simp add: Cons.IH)
qed

lemma at_boundary_word_boundary:
  "at_boundary (last_opt None pre, post) = word_boundary pre post"
  by (cases post) (auto simp: at_boundary_def word_boundary_def last_opt_def word_before_def word_after_def)

lemma last_opt_append: "last_opt (last_opt p pre) s = last_opt p (pre @ s)"
  by (simp add: last_opt_def)

lemma skill_mentioned_iff:
  "skill_mentioned skill text = occurs_at_word_boundaries (lower skill) text"
proof -
  let ?s = "lower skill"
  have search: "skill_mentioned skill text \<longleftrightarrow>
     (\<exists>pre post'. text = pre @ post' \<and> prefix ?s post' \<and> at_boundary (last_opt None pre, post')
         \<and> at_boundary (last_opt (last_opt None pre) ?s, drop (length ?s) post'))"
    unfolding skill_mentioned_def re_search_def skill_pattern_def search_from_iff
      rmatch_skill_pattern by (rule refl)
  show ?thesis
  proof
    assume "skill_mentioned skill text"
    then obtain pre post' where t: "text = pre @ post'" and p: "prefix ?s post'"
      and b1: "at_boundary (last_opt None pre, post')"
      and b2: "at_boundary (last_opt (last_opt None pre) ?s, drop (length ?s) post')"
      using search by blast
    from p obtain post where post: "post' = ?s @ post" by (auto simp: prefix_def)
    have "text = pre @ ?s @ post" using t post by simp
    moreover have "word_boundary pre (?s @ post)"
      using b1 post by (simp add: at_boundary_word_boundary)
    moreover have "word_boundary (pre @ ?s) post"
      using b2 post by (simp add: last_opt_append at_boundary_word_boundary)
    ultimately show "occurs_at_word_boundaries ?s text"
      unfolding occurs_at_word_boundaries_def by blast
  next
    assume "occurs_at_word_boundaries ?s text"
    then obtain pre post where t: "text = pre @ ?s @ post"
      and w1: "word_boundary pre (?s @ post)" and w2: "word_boundary (pre @ ?s) post"
      unfolding occurs_at_word_boundaries_def by blast
    have "prefix ?s (?s @ post)" by simp
    moreover have "at_boundary (last_opt None pre, ?s @ post)"
      using w1 by (simp add: at_boundary_word_boundary)
    moreover have "at_boundary (last_opt (last_opt None pre) ?s, drop (length ?s) (?s @ post))"
      using w2 by (simp add: last_opt_append at_boundary_word_boundary)
    ultimately show "skill_mentioned skill text"
      using t search by blast
  qed
qed

lemma mentioned_from_eq:
  "mentioned_from s p xs = search_from (Cat WordB (Cat (literal s) WordB)) p xs"
proof (induction xs arbitrary: p)
  case Nil
  show ?case
    unfolding mentioned_from.simps search_from.simps rmatch_skill_pattern
    by (auto simp: last_opt_def)
next
  case (Cons x xs)
  show ?case
    unfolding mentioned_from.simps search_from.simps rmatch_skill_pattern Cons.IH
    by blast
qed

lemma skill_mentioned_code:
  "skill_mentioned skill text = mentioned_from (lower skill) None text"
  by (simp only: skill_mentioned_def re_search_def skill_pattern_def mentioned_from_eq)

lemmas char_class_defs = is_word_char_def is_digit_def is_upper_def is_lower_def
lemmas eval_mentioned = skill_mentioned_code lower_def lower_char_def dict_get_def
  at_boundary_def word_before_def word_after_def last_opt_def char_class_defs

lemma java_not_in_javascript: "\<not> skill_mentioned ''java'' (lower ''javascript developer'')"
  by (simp add: eval_mentioned)

lemma sql_server_example: "skill_mentioned ''sql server'' (lower ''Admin of SQL Server, 5 years'')"
  by (simp add: eval_mentioned)

lemma is_word_char_lower_char: "is_word_char (lower_char c) = is_word_char c"
  by (auto simp: lower_char_def dict_get_def char_class_defs split: if_splits)

lemma not_word_space_punct:
  "is_space c \<or> (is_punctuation c \<and> c \<noteq> CHR ''_'') \<Longrightarrow> \<not> is_word_char c"
  by (auto simp: is_space_def is_punctuation_def char_class_defs)

subsection \<open>What the extractor can report\<close>

lemma dict_get_dict_set:
  "dict_get (dict_set d k v) k' dflt = (if k' = k then v else dict_get d k' dflt)"
  by (simp add: dict_get_def map_of_dict_set)

lemma dict_get_dict_append:
  "dict_get (dict_append d k v) k' [] =
     (if k' = k then dict_get d k [] @ [v] else dict_get d k' [])"
  by (simp add: dict_append_def dict_get_dict_set)

lemma scan_skills_member:
  "s \<in> set (dict_get (scan_skills t cat skills f) k []) \<Longrightarrow>
     s \<in> set (dict_get f k []) \<or> skill_mentioned s t"
proof (induction skills arbitrary: f)
  case Nil
  then show ?case by simp
next
  case (Cons a skills)
  show ?case
  proof (cases "skill_mentioned a t")
    case True
    with Cons.prems have "s \<in> set (dict_get (scan_skills t cat skills (dict_append f cat a)) k [])"
      by simp
    then have "s \<in> set (dict_get (dict_append f cat a) k []) \<or> skill_mentioned s t"
      by (rule Cons.IH)
    with True show ?thesis
      by (auto simp: dict_get_dict_append split: if_splits)
  next
    case False
    with Cons.prems have "s \<in> set (dict_get (scan_skills t cat skills f) k [])"
      by simp
    then show ?thesis by (rule Cons.IH)
  qed
qed

lemma scan_categories_member:
  "s \<in> set (dict_get (scan_categories t cats f) k []) \<Longrightarrow>
     s \<in> set (dict_get f k []) \<or> skill_mentioned s t"
  by (induction t cats f rule: scan_categories.induct) (auto dest: scan_skills_member)

lemma record_main_skill_member:
  "s \<in> set (dict_get (record_main_skill m cats f) k []) \<Longrightarrow>
     s \<in> set (dict_get f k []) \<or> s = m"
  by (induction m cats f rule: record_main_skill.induct)
     (auto simp: dict_get_dict_append split: if_splits)

lemma scan_synonyms_member:
  "s \<in> set (dict_get (scan_synonyms self t m syns f) k []) \<Longrightarrow>
     s \<in> set (dict_get f k []) \<or> s = m"
  by (induction syns arbitrary: f) (auto dest: record_main_skill_member split: if_splits)

lemma scan_synonym_table_member:
  "s \<in> set (dict_get (scan_synonym_table self t table f) k []) \<Longrightarrow>
     s \<in> set (dict_get f k []) \<or> s \<in> set (map fst table)"
  by (induction self t table f rule: scan_synonym_table.induct)
     (auto dest: scan_synonyms_member)

lemma extract_member:
  "s \<in> set (dict_get (extract_skills_from_text self text) k []) \<Longrightarrow>
     skill_mentioned s (lower text) \<or> s \<in> set (map fst (skill_synonyms self))"
proof -
  assume "s \<in> set (dict_get (extract_skills_from_text self text) k [])"
  then have "s \<in> set (dict_get (scan_categories (lower text) (skill_categories self) []) k [])
      \<or> s \<in> set (map fst (skill_synonyms self))"
    unfolding extract_skills_from_text_def Let_def by (rule scan_synonym_table_member)
  moreover have "s \<notin> set (dict_get [] k [])"
    by (simp add: dict_get_def)
  ultimately show ?thesis
    using scan_categories_member [of s "lower text" "skill_categories self" "[]" k] by blast
qed

lemma scan_skills_reports:
  "set (dict_get (scan_skills t cat skills f) k []) =
     set (dict_get f k []) \<union> (if k = cat then {s \<in> set skills. skill_mentioned s t} else {})"
  by (induction skills arbitrary: f) (auto simp: dict_get_dict_append)

lemma scan_categories_reports:
  "set (dict_get (scan_categories t cats f) k []) =
     set (dict_get f k [])
     \<union> {s. \<exists>skills. (k, skills) \<in> set cats \<and> s \<in> set skills \<and> skill_mentioned s t}"
  by (induction t cats f rule: scan_categories.induct) (auto simp: scan_skills_reports)

lemma record_main_skill_reports:
  "set (dict_get (record_main_skill m cats f) k []) =
     set (dict_get f k [])
     \<union> (if map_option fst (find (\<lambda>(category, skills). m \<in> set skills) cats) = Some k
        then {m} else {})"
  by (induction m cats f rule: record_main_skill.induct) (auto simp: dict_get_dict_append)

lemma scan_synonyms_reports:
  "set (dict_get (scan_synonyms self t m syns f) k []) =
     set (dict_get f k [])
     \<union> (if first_category self m = Some k \<and> (\<exists>syn\<in>set syns. skill_mentioned syn t)
        then {m} else {})"
  by (induction syns arbitrary: f)
     (auto simp: record_main_skill_reports first_category_def)

lemma scan_synonym_table_reports:
  "set (dict_get (scan_synonym_table self t table f) k []) =
     set (dict_get f k [])
     \<union> {m. first_category self m = Some k
            \<and> (\<exists>syns syn. (m, syns) \<in> set table \<and> syn \<in> set syns \<and> skill_mentioned syn t)}"
  by (induction self t table f rule: scan_synonym_table.induct)
     (auto simp: scan_synonyms_reports)

lemma extract_reports:
  "s \<in> set (dict_get (extract_skills_from_text self text) k []) \<longleftrightarrow>
     (\<exists>skills. (k, skills) \<in> set (skill_categories self) \<and> s \<in> set skills
        \<and> skill_mentioned s (lower text))
     \<or> (first_category self s = Some k
        \<and> (\<exists>syns syn. (s, syns) \<in> set (skill_synonyms self) \<and> syn \<in> set syns
              \<and> skill_mentioned syn (lower text)))"
proof -
  have empty: "set (dict_get ([] :: skill_map) k []) = {}"
    by (simp add: dict_get_def)
  have "set (dict_get (extract_skills_from_text self text) k []) =
     {s. \<exists>skills. (k, skills) \<in> set (skill_categories self) \<and> s \<in> set skills
           \<and> skill_mentioned s (lower text)}
     \<union> {m. first_category self m = Some k
            \<and> (\<exists>syns syn. (m, syns) \<in> set (skill_synonyms self) \<and> syn \<in> set syns
                  \<and> skill_mentioned syn (lower text))}"
    unfolding extract_skills_from_text_def Let_def scan_synonym_table_reports
      scan_categories_reports empty
    by simp
  then show ?thesis by auto
qed

subsection \<open>The matching rule\<close>

lemma terms_lower_case:
  "list_all (\<lambda>t. lower t = t)
     (concat (map snd (skill_categories SkillMatcher))
      @ concat (map snd (skill_synonyms SkillMatcher)))"
  by (simp add: SkillMatcher_def load_skill_categories_def load_skill_synonyms_def
      lower_def lower_char_def dict_get_def)

lemma terms_ascii:
  "list_all ascii
     (concat (map snd (skill_categories SkillMatcher))
      @ concat (map snd (skill_synonyms SkillMatcher)))"
  by (simp add: SkillMatcher_def load_skill_categories_def load_skill_synonyms_def ascii_def)

lemma taxonomy_term_lower:
  assumes "(k, skills) \<in> set (skill_categories SkillMatcher)" and "s \<in> set skills"
  shows "lower s = s"
proof -
  have "s \<in> set (concat (map snd (skill_categories SkillMatcher))
      @ concat (map snd (skill_synonyms SkillMatcher)))"
    using assms by force
  with terms_lower_case show ?thesis
    unfolding list_all_iff by blast
qed

lemma synonym_term_lower:
  assumes "(m, syns) \<in> set (skill_synonyms SkillMatcher)" and "syn \<in> set syns"
  shows "lower syn = syn"
proof -
  have "syn \<in> set (concat (map snd (skill_categories SkillMatcher))
      @ concat (map snd (skill_synonyms SkillMatcher)))"
    using assms by force
  with terms_lower_case show ?thesis
    unfolding list_all_iff by blast
qed

lemma extractor_word_bounded:
  "s \<in> set (dict_get (extract_skills_from_text SkillMatcher text) category []) \<longleftrightarrow>
     (\<exists>skills. (category, skills) \<in> set (skill_categories SkillMatcher) \<and> s \<in> set skills
        \<and> occurs_at_word_boundaries s (lower text))
     \<or> (first_category SkillMatcher s = Some category
        \<and> (\<exists>synonyms synonym. (s, synonyms) \<in> set (skill_synonyms SkillMatcher)
              \<and> synonym \<in> set synonyms
              \<and> occurs_at_word_boundaries synonym (lower text)))"
proof -
  have a: "skill_mentioned s (lower text) = occurs_at_word_boundaries s (lower text)"
    if "(category, skills) \<in> set (skill_categories SkillMatcher)" "s \<in> set skills"
    for skills
    using taxonomy_term_lower [OF that] skill_mentioned_iff [of s "lower text"] by simp
  have b: "skill_mentioned syn (lower text) = occurs_at_word_boundaries syn (lower text)"
    if "(s, syns) \<in> set (skill_synonyms SkillMatcher)" "syn \<in> set syns"
    for syns syn
    using synonym_term_lower [OF that] skill_mentioned_iff [of syn "lower text"] by simp
  show ?thesis
    unfolding extract_reports using a b by blast
qed

text \<open>
  Claim C7. For ASCII strings: a term is mentioned in the lower-cased text exactly when the
  term, in lower case, occurs in that text with a word boundary right before and right
  after the occurrence; a term of several words is one literal phrase under the same rule.
  The extractor counts terms by this rule: it reports a skill under a category exactly when
  the skill is listed under the category and occurs in the lower-cased text bounded by word
  boundaries, or the category is the one that owns the skill and one of the skill's synonyms
  occurs so. (All terms of the two tables are ASCII and in lower case.) In particular
  \<open>java\<close> is not mentioned in \<open>javascript developer\<close> and the extractor reports it under
  no category there, while it reports \<open>javascript\<close>; the phrase \<open>sql server\<close> is found as
  a whole.
\<close>

theorem mentioned_iff_word_bounded:
  "(ascii term \<and> ascii text \<longrightarrow>
      skill_mentioned term (lower text) =
        occurs_at_word_boundaries (lower term) (lower text))
   \<and> (ascii text \<longrightarrow>
      (s \<in> set (dict_get (extract_skills_from_text SkillMatcher text) category []) \<longleftrightarrow>
         (\<exists>skills. (category, skills) \<in> set (skill_categories SkillMatcher) \<and> s \<in> set skills
            \<and> occurs_at_word_boundaries s (lower text))
         \<or> (first_category SkillMatcher s = Some category
            \<and> (\<exists>synonyms synonym. (s, synonyms) \<in> set (skill_synonyms SkillMatcher)
                  \<and> synonym \<in> set synonyms
                  \<and> occurs_at_word_boundaries synonym (lower text)))))
   \<and> list_all ascii
         (concat (map snd (skill_categories SkillMatcher))
          @ concat (map snd (skill_synonyms SkillMatcher)))
   \<and> list_all (\<lambda>t. lower t = t)
         (concat (map snd (skill_categories SkillMatcher))
          @ concat (map snd (skill_synonyms SkillMatcher)))
   \<and> \<not> skill_mentioned ''java'' (lower ''javascript developer'')
   \<and> ''java'' \<notin> set (dict_get (extract_skills_from_text SkillMatcher ''javascript developer'')
                         category [])
   \<and> ''javascript'' \<in> set (dict_get
         (extract_skills_from_text SkillMatcher ''javascript developer'')
         ''programming_languages'' [])
   \<and> skill_mentioned ''sql server'' (lower ''Admin of SQL Server, 5 years'')"
proof -
  have 1: "ascii term \<and> ascii text \<longrightarrow>
      skill_mentioned term (lower text) =
        occurs_at_word_boundaries (lower term) (lower text)"
    by (simp add: skill_mentioned_iff)
  have 2: "ascii text \<longrightarrow>
      (s \<in> set (dict_get (extract_skills_from_text SkillMatcher text) category []) \<longleftrightarrow>
         (\<exists>skills. (category, skills) \<in> set (skill_categories SkillMatcher) \<and> s \<in> set skills
            \<and> occurs_at_word_boundaries s (lower text))
         \<or> (first_category SkillMatcher s = Some category
            \<and> (\<exists>synonyms synonym. (s, synonyms) \<in> set (skill_synonyms SkillMatcher)
                  \<and> synonym \<in> set synonyms
                  \<and> occurs_at_word_boundaries synonym (lower text))))"
    using extractor_word_bounded [of s "text" category] by blast
  have 3: "\<not> skill_mentioned ''java'' (lower ''javascript developer'')"
    by (simp add: eval_mentioned)
  have "''java'' \<notin> set (map fst (skill_synonyms SkillMatcher))"
    by (simp add: SkillMatcher_def load_skill_synonyms_def)
  with 3 have 4: "''java'' \<notin> set (dict_get
      (extract_skills_from_text SkillMatcher ''javascript developer'') category [])"
    using extract_member [of "''java''" SkillMatcher "''javascript developer''" category]
    by blast
  have listed: "(''programming_languages'',
        [''python'', ''java'', ''javascript'', ''typescript'', ''c++'', ''c#'', ''go'',
         ''rust'', ''swift'', ''kotlin'', ''scala'', ''ruby'', ''php'', ''r'', ''matlab''])
      \<in> set (skill_categories SkillMatcher)"
    by (simp add: SkillMatcher_def load_skill_categories_def)
  have m: "skill_mentioned ''javascript'' (lower ''javascript developer'')"
    by (simp add: eval_mentioned)
  have 5: "''javascript'' \<in> set (dict_get
         (extract_skills_from_text SkillMatcher ''javascript developer'')
         ''programming_languages'' [])"
    unfolding extract_reports using listed m by fastforce
  have 6: "skill_mentioned ''sql server'' (lower ''Admin of SQL Server, 5 years'')"
    by (simp add: eval_mentioned)
  show ?thesis
    by (intro conjI) (rule 1 2 terms_ascii terms_lower_case 3 4 5 6)+
qed

theorem mentioned_iff_word_bounded_witness:
  "ascii ''java'' \<and> ascii ''javascript developer''
   \<and> skill_mentioned ''java'' (lower ''javascript developer'') =
       occurs_at_word_boundaries (lower ''java'') (lower ''javascript developer'')
   \<and> (''javascript'' \<in> set (dict_get
         (extract_skills_from_text SkillMatcher ''javascript developer'')
         ''programming_languages'' []) \<longleftrightarrow>
         (\<exists>skills. (''programming_languages'', skills) \<in> set (skill_categories SkillMatcher)
            \<and> ''javascript'' \<in> set skills
            \<and> occurs_at_word_boundaries ''javascript'' (lower ''javascript developer''))
         \<or> (first_category SkillMatcher ''javascript'' = Some ''programming_languages''
            \<and> (\<exists>synonyms synonym.
                  (''javascript'', synonyms) \<in> set (skill_synonyms SkillMatcher)
                  \<and> synonym \<in> set synonyms
                  \<and> occurs_at_word_boundaries synonym (lower ''javascript developer''))))"
proof -
  have h: "ascii ''java''" "ascii ''javascript developer''"
    by (simp_all add: ascii_def)
  show ?thesis
    using mentioned_iff_word_bounded [of "''java''" "''javascript developer''"
        "''javascript''" "''programming_languages''"] h
    by blast
qed

subsection \<open>Terms that end in a non-word character\<close>

lemma last_lower: "s \<noteq> [] \<Longrightarrow> last (lower s) = lower_char (last s)"
  by (simp add: lower_def last_map)

lemma occurrences_Nil:
  "(\<forall>pre post. [] = pre @ s @ post \<longrightarrow> P post) \<longleftrightarrow> (s = [] \<longrightarrow> P [])"
  by auto

lemma occurrences_Cons:
  "(\<forall>pre post. x # xs = pre @ s @ post \<longrightarrow> P post) \<longleftrightarrow>
     (prefix s (x # xs) \<longrightarrow> P (drop (length s) (x # xs)))
     \<and> (\<forall>pre post. xs = pre @ s @ post \<longrightarrow> P post)"
  (is "?L \<longleftrightarrow> ?A \<and> ?B")
proof
  assume L: ?L
  have ?A
  proof
    assume "prefix s (x # xs)"
    then obtain post where e: "x # xs = s @ post" by (auto simp: prefix_def)
    then have "x # xs = [] @ s @ post" by simp
    with L have "P post" by blast
    moreover have "drop (length s) (x # xs) = post" using e by simp
    ultimately show "P (drop (length s) (x # xs))" by simp
  qed
  moreover have ?B
  proof (intro allI impI)
    fix pre post assume "xs = pre @ s @ post"
    then have "x # xs = (x # pre) @ s @ post" by simp
    with L show "P post" by blast
  qed
  ultimately show "?A \<and> ?B" by blast
next
  assume AB: "?A \<and> ?B"
  show ?L
  proof (intro allI impI)
    fix pre post assume e: "x # xs = pre @ s @ post"
    show "P post"
    proof (cases pre)
      case Nil
      with e have "prefix s (x # xs)" and "drop (length s) (x # xs) = post" by simp_all
      with AB show ?thesis by auto
    next
      case (Cons y pre')
      with e have "xs = pre' @ s @ post" by simp
      with AB show ?thesis by blast
    qed
  qed
qed

lemma lower_cpp: "lower ''c++'' = ''c++''"
  by (simp add: lower_def lower_char_def dict_get_def)

lemma lower_csharp: "lower ''c#'' = ''c#''"
  by (simp add: lower_def lower_char_def dict_get_def)

lemma cpp_prose_occurrences:
  "\<forall>pre post. ''c++ and c# developer'' = pre @ lower ''c++'' @ post \<longrightarrow>
           post = [] \<or> is_space (hd post)
           \<or> (is_punctuation (hd post) \<and> hd post \<noteq> CHR ''_'')"
  unfolding lower_cpp occurrences_Cons occurrences_Nil
  by (simp add: is_space_def)

lemma cpp_underscore_occurrences:
  "\<forall>pre post. ''c++_'' = pre @ lower ''c++'' @ post \<longrightarrow>
           post = [] \<or> is_space (hd post) \<or> is_punctuation (hd post)"
  unfolding lower_cpp occurrences_Cons occurrences_Nil
  by (simp add: is_punctuation_def)

text \<open>
  Claim C10, as the code has it. Let a term end in a character that is not a word
  character, as the taxonomy terms \<open>c++\<close> and \<open>c#\<close> do, and let every occurrence of the
  term in an ASCII text be followed by the end of the text, by whitespace, or by a
  punctuation mark other than the underscore. Then \<open>_skill_mentioned\<close> is false for the
  term: the trailing \<^verbatim>\<open>\b\<close> needs a word character after \<open>+\<close> or \<open>#\<close>. Hence the extractor
  reports neither \<open>c++\<close> nor \<open>c#\<close> for the text \<open>c++ and c# developer\<close>.
\<close>

theorem trailing_nonword_never_mentioned:
  "(ascii skill \<and> ascii text \<and> skill \<noteq> [] \<and> \<not> is_word_char (last skill)
      \<and> (\<forall>pre post. text = pre @ lower skill @ post \<longrightarrow>
             post = [] \<or> is_space (hd post)
             \<or> (is_punctuation (hd post) \<and> hd post \<noteq> CHR ''_''))
     \<longrightarrow> \<not> skill_mentioned skill text)
   \<and> ''c++'' \<in> set (dict_get (skill_categories SkillMatcher) ''programming_languages'' [])
   \<and> ''c#'' \<in> set (dict_get (skill_categories SkillMatcher) ''programming_languages'' [])
   \<and> \<not> is_word_char (last ''c++'') \<and> \<not> is_word_char (last ''c#'')
   \<and> \<not> skill_mentioned ''c++'' (lower ''c++ and c# developer'')
   \<and> \<not> skill_mentioned ''c#'' (lower ''c++ and c# developer'')
   \<and> ''c++'' \<notin> set (dict_get (extract_skills_from_text SkillMatcher ''c++ and c# developer'')
                        category [])
   \<and> ''c#'' \<notin> set (dict_get (extract_skills_from_text SkillMatcher ''c++ and c# developer'')
                       category [])"
proof -
  have general: "\<not> skill_mentioned skill text"
    if ne: "skill \<noteq> []" and nw: "\<not> is_word_char (last skill)"
      and occ: "\<forall>pre post. text = pre @ lower skill @ post \<longrightarrow>
             post = [] \<or> is_space (hd post)
             \<or> (is_punctuation (hd post) \<and> hd post \<noteq> CHR ''_'')"
  proof
    assume "skill_mentioned skill text"
    then obtain pre post where t: "text = pre @ lower skill @ post"
      and w: "word_boundary (pre @ lower skill) post"
      unfolding skill_mentioned_iff occurs_at_word_boundaries_def by blast
    have "lower skill \<noteq> []" using ne by (simp add: lower_def)
    moreover have "\<not> is_word_char (last (lower skill))"
      using ne nw by (simp add: last_lower is_word_char_lower_char)
    ultimately have "post \<noteq> [] \<and> is_word_char (hd post)"
      using w by (simp add: word_boundary_def)
    moreover have "post = [] \<or> is_space (hd post)
        \<or> (is_punctuation (hd post) \<and> hd post \<noteq> CHR ''_'')"
      using occ t by blast
    ultimately show False
      using not_word_space_punct [of "hd post"] by blast
  qed
  have 1: "''c++'' \<in> set (dict_get (skill_categories SkillMatcher) ''programming_languages'' [])"
    by (simp add: SkillMatcher_def load_skill_categories_def dict_get_def)
  have 2: "''c#'' \<in> set (dict_get (skill_categories SkillMatcher) ''programming_languages'' [])"
    by (simp add: SkillMatcher_def load_skill_categories_def dict_get_def)
  have 3: "\<not> is_word_char (last ''c++'')" "\<not> is_word_char (last ''c#'')"
    by (simp_all add: char_class_defs)
  have 4: "\<not> skill_mentioned ''c++'' (lower ''c++ and c# developer'')"
    by (simp add: eval_mentioned)
  have 5: "\<not> skill_mentioned ''c#'' (lower ''c++ and c# developer'')"
    by (simp add: eval_mentioned)
  have keys: "''c++'' \<notin> set (map fst (skill_synonyms SkillMatcher))"
    "''c#'' \<notin> set (map fst (skill_synonyms SkillMatcher))"
    by (simp_all add: SkillMatcher_def load_skill_synonyms_def)
  have 6: "''c++'' \<notin> set (dict_get
      (extract_skills_from_text SkillMatcher ''c++ and c# developer'') category [])"
    using 4 keys(1)
      extract_member [of "''c++''" SkillMatcher "''c++ and c# developer''" category]
    by blast
  have 7: "''c#'' \<notin> set (dict_get
      (extract_skills_from_text SkillMatcher ''c++ and c# developer'') category [])"
    using 5 keys(2)
      extract_member [of "''c#''" SkillMatcher "''c++ and c# developer''" category]
    by blast
  show ?thesis
    using general 1 2 3 4 5 6 7 by blast
qed

theorem trailing_nonword_never_mentioned_witness:
  "ascii ''c++'' \<and> ascii ''c++ and c# developer''
   \<and> ''c++'' \<noteq> [] \<and> \<not> is_word_char (last ''c++'')
   \<and> \<not> (\<exists>pre post. ''c++ and c# developer'' = pre @ lower ''c++'' @ post
          \<and> \<not> (post = [] \<or> is_space (hd post)
                 \<or> (is_punctuation (hd post) \<and> hd post \<noteq> CHR ''_'')))
   \<and> \<not> skill_mentioned ''c++'' ''c++ and c# developer''"
proof -
  have h0: "ascii ''c++''" "ascii ''c++ and c# developer''"
    by (simp_all add: ascii_def)
  have h1: "''c++'' \<noteq> []" by simp
  have h2: "\<not> is_word_char (last ''c++'')" by (simp add: char_class_defs)
  note h3 = cpp_prose_occurrences
  have "\<not> skill_mentioned ''c++'' ''c++ and c# developer''"
    using trailing_nonword_never_mentioned [of "''c++''" "''c++ and c# developer''"]
      h0 h1 h2 h3
    by blast
  with h0 h1 h2 h3 show ?thesis by blast
qed

text \<open>
  With the underscore among the punctuation marks the statement fails: in the text
  \<open>c++_\<close> the only occurrence of \<open>c++\<close> is followed by the punctuation mark \<open>_\<close>, which is a
  word character, so the trailing \<^verbatim>\<open>\b\<close> matches and the term counts as mentioned.
\<close>

theorem underscore_after_term_matches:
  "ascii ''c++'' \<and> ascii ''c++_''
   \<and> ''c++'' \<noteq> [] \<and> \<not> is_word_char (last ''c++'')
   \<and> is_punctuation CHR ''_''
   \<and> \<not> (\<exists>pre post. ''c++_'' = pre @ lower ''c++'' @ post
          \<and> \<not> (post = [] \<or> is_space (hd post) \<or> is_punctuation (hd post)))
   \<and> skill_mentioned ''c++'' ''c++_''"
proof -
  have "ascii ''c++''" "ascii ''c++_''" by (simp_all add: ascii_def)
  moreover have "\<not> is_word_char (last ''c++'')" by (simp add: char_class_defs)
  moreover have "is_punctuation CHR ''_''" by (simp add: is_punctuation_def)
  moreover have "skill_mentioned ''c++'' ''c++_''" by (simp add: eval_mentioned)
  ultimately show ?thesis
    using cpp_underscore_occurrences by blast
qed

subsection \<open>Skills score\<close>

lemma sum_len_skill_lists:
  "sum_len (map (snd \<circ> (\<lambda>(k, v). (k, PList (map PStr v)))) m) = Inr (count_skills m)"
proof (induction m)
  case Nil
  then show ?case by (simp add: count_skills_def)
next
  case (Cons a m)
  obtain k v where a: "a = (k, v)" by (cases a)
  have "count_skills (a # m) = length v + count_skills m"
    by (simp add: count_skills_def a)
  with Cons show ?case by (simp add: a)
qed

lemma sum_len_values_skill_map:
  "sum_len_values (skill_map_to_py m) = Inr (count_skills m)"
  by (simp add: sum_len_values_def skill_map_to_py_def sum_len_skill_lists)

lemma relevance_le_100: "real e / real (e + m) * 100 \<le> 100"
proof (cases "e + m = 0")
  case True
  then show ?thesis by simp
next
  case False
  then have "0 < e + m" by simp
  then have pos: "0 < real (e + m)" by (simp only: of_nat_0_less_iff)
  have "real e \<le> 1 * real (e + m)" by simp
  with pos have le1: "real e / real (e + m) \<le> 1" by (rule mult_imp_div_pos_le)
  have aux: "x * 100 \<le> 100" if "x \<le> 1" for x :: real
    using that by simp
  from le1 show ?thesis by (rule aux)
qed

lemma skills_try_match_result:
  "skills_try (match_result_to_py m) skills_init =
     (\<lparr>total_score = py_round2 (min (overall_score m) 100 * (4 / 10)
                          + depth_of (count_skills (exact_matches m)) * (3 / 10)
                          + relevance_of (count_skills (exact_matches m))
                              (count_skills (missing_skills m)) * (3 / 10)),
       error = None,
       technical_skills = min (overall_score m) 100,
       skill_depth = depth_of (count_skills (exact_matches m)),
       skill_relevance = relevance_of (count_skills (exact_matches m))
                              (count_skills (missing_skills m)),
       details = Some \<lparr>exact_matches_count = count_skills (exact_matches m),
                        missing_critical_skills = count_skills (missing_skills m),
                        overall_match_percentage = PFloat (overall_score m)\<rparr>\<rparr>, None)"
proof -
  have g1: "py_get (match_result_to_py m) ''exact_matches'' (PDict []) =
      Inr (skill_map_to_py (exact_matches m))"
    by (simp add: match_result_to_py_def dict_get_def)
  have g2: "py_get (match_result_to_py m) ''missing_skills'' (PDict []) =
      Inr (skill_map_to_py (missing_skills m))"
    by (simp add: match_result_to_py_def dict_get_def)
  have g3: "py_get (match_result_to_py m) ''overall_score'' (PInt 0) =
      Inr (PFloat (overall_score m))"
    by (simp add: match_result_to_py_def dict_get_def)
  have t: "py_min_100 (PFloat (overall_score m)) =
      Inr (if 100 < overall_score m then (PInt 100, 100)
           else (PFloat (overall_score m), overall_score m))"
    by (simp add: py_min_100_def)
  have w: "py_times_float (fst (if 100 < overall_score m then (PInt 100, 100)
           else (PFloat (overall_score m), overall_score m))) (4 / 10) =
      Inr (min (overall_score m) 100, min (overall_score m) 100 * (4 / 10))"
    by (simp add: py_times_float_def float_overflows_def min_def)
  have d: "analyze_skill_depth (match_result_to_py m) =
      Inr (depth_of (count_skills (exact_matches m)))"
    by (simp add: analyze_skill_depth_def g1 sum_len_values_skill_map depth_of_def)
  have r: "calculate_skill_relevance (skill_map_to_py (exact_matches m))
        (skill_map_to_py (missing_skills m)) =
      Inr (relevance_of (count_skills (exact_matches m)) (count_skills (missing_skills m)))"
    using relevance_le_100 [of "count_skills (exact_matches m)" "count_skills (missing_skills m)"]
    by (simp add: calculate_skill_relevance_def sum_len_values_skill_map relevance_of_def)
  show ?thesis
    using w
    by (cases "100 < overall_score m")
       (simp_all add: skills_try_def g1 g2 g3 t d r sum_len_values_skill_map skills_init_def
          min_def del: py_get.simps)
qed

lemma calculate_skills_score_match_result:
  "calculate_skills_score (match_result_to_py m) = fst (skills_try (match_result_to_py m) skills_init)"
  by (simp add: calculate_skills_score_def skills_try_match_result)

text \<open>
  Claim C5, as the code has it. For every match-result-shaped record the technical score is
  the smaller of the overall match score and 100, the depth is 90, 75, 60 or 40 as the number
  of exact matches is at least 8, 5, 3 or less, the relevance is the share of exact matches
  among exact and missing skills times 100 (50 when there are none), and the returned
  \<open>total_score\<close> is 0.4 technical + 0.3 depth + 0.3 relevance rounded to two decimals, with
  no error reported. With an overall match of 75, three exact matches and one missing skill
  the total is 70.5.
\<close>

theorem skills_score_formula:
  "technical_skills (calculate_skills_score (match_result_to_py m)) = min (overall_score m) 100
   \<and> skill_depth (calculate_skills_score (match_result_to_py m)) =
       (if count_skills (exact_matches m) \<ge> 8 then 90
        else if count_skills (exact_matches m) \<ge> 5 then 75
        else if count_skills (exact_matches m) \<ge> 3 then 60 else 40)
   \<and> skill_relevance (calculate_skills_score (match_result_to_py m)) =
       (if count_skills (exact_matches m) + count_skills (missing_skills m) = 0 then 50
        else real (count_skills (exact_matches m))
               / real (count_skills (exact_matches m) + count_skills (missing_skills m)) * 100)
   \<and> total_score (calculate_skills_score (match_result_to_py m)) =
       py_round2 (4 / 10 * technical_skills (calculate_skills_score (match_result_to_py m))
                  + 3 / 10 * skill_depth (calculate_skills_score (match_result_to_py m))
                  + 3 / 10 * skill_relevance (calculate_skills_score (match_result_to_py m)))
   \<and> error (calculate_skills_score (match_result_to_py m)) = None
   \<and> total_score (calculate_skills_score (PDict
         [(''exact_matches'', PDict [(''programming_languages'', PList [PStr ''python'', PStr ''java'']),
                                    (''databases'', PList [PStr ''postgresql''])]),
          (''missing_skills'', PDict [(''programming_languages'', PList [PStr ''javascript''])]),
          (''overall_score'', PInt 75)])) = 705 / 10"
proof -
  let ?sb = "calculate_skills_score (match_result_to_py m)"
  have sb: "?sb = fst (skills_try (match_result_to_py m) skills_init)"
    by (rule calculate_skills_score_match_result)
  have 1: "technical_skills ?sb = min (overall_score m) 100"
    by (simp add: sb skills_try_match_result)
  have 2: "skill_depth ?sb =
       (if count_skills (exact_matches m) \<ge> 8 then 90
        else if count_skills (exact_matches m) \<ge> 5 then 75
        else if count_skills (exact_matches m) \<ge> 3 then 60 else 40)"
    by (simp add: sb skills_try_match_result depth_of_def)
  have 3: "skill_relevance ?sb =
       (if count_skills (exact_matches m) + count_skills (missing_skills m) = 0 then 50
        else real (count_skills (exact_matches m))
               / real (count_skills (exact_matches m) + count_skills (missing_skills m)) * 100)"
    by (simp add: sb skills_try_match_result relevance_of_def)
  have 4: "total_score ?sb =
       py_round2 (4 / 10 * technical_skills ?sb + 3 / 10 * skill_depth ?sb
                  + 3 / 10 * skill_relevance ?sb)"
    by (simp add: sb skills_try_match_result mult.commute)
  have 5: "error ?sb = None"
    by (simp add: sb skills_try_match_result)
  have 6: "total_score (calculate_skills_score (PDict
         [(''exact_matches'', PDict [(''programming_languages'', PList [PStr ''python'', PStr ''java'']),
                                    (''databases'', PList [PStr ''postgresql''])]),
          (''missing_skills'', PDict [(''programming_languages'', PList [PStr ''javascript''])]),
          (''overall_score'', PInt 75)])) = 705 / 10"
    by (simp add: calculate_skills_score_def skills_try_def skills_init_def dict_get_def
        py_min_100_def analyze_skill_depth_def calculate_skill_relevance_def sum_len_values_def
        py_times_float_def float_overflows_def py_round2_def round_half_even_def)
  show ?thesis
    by (intro conjI) (rule 1 2 3 4 5 6)+
qed

text \<open>
  The total is not the unrounded weighted sum. A candidate with one of three required
  skills has an overall match of 100/3; the weighted sum is 106/3 and the returned total
  is 35.33.
\<close>

lemma one_of_three_is_match_result:
  "calculate_skill_match_score [(''databases'', [''mysql''])]
     [(''databases'', [''mysql'', ''postgresql'', ''mongodb''])] = one_of_three"
  by (simp add: calculate_skill_match_score_def match_category_def match_init_def py_set_def
      dict_get_def dict_set_def intersection_def difference_def one_of_three_def)

theorem skills_total_is_rounded:
  "total_score (calculate_skills_score (match_result_to_py one_of_three)) = 3533 / 100
   \<and> 4 / 10 * technical_skills (calculate_skills_score (match_result_to_py one_of_three))
       + 3 / 10 * skill_depth (calculate_skills_score (match_result_to_py one_of_three))
       + 3 / 10 * skill_relevance (calculate_skills_score (match_result_to_py one_of_three))
     = 106 / 3
   \<and> total_score (calculate_skills_score (match_result_to_py one_of_three)) \<noteq>
       4 / 10 * technical_skills (calculate_skills_score (match_result_to_py one_of_three))
       + 3 / 10 * skill_depth (calculate_skills_score (match_result_to_py one_of_three))
       + 3 / 10 * skill_relevance (calculate_skills_score (match_result_to_py one_of_three))"
  by (simp add: calculate_skills_score_match_result skills_try_match_result one_of_three_def
      depth_of_def relevance_of_def count_skills_def py_round2_def round_half_even_def)

subsection \<open>Years of experience\<close>

lemmas eval_years = total_years_of_def year_patterns_def years_pattern_def range_pattern_def
  present_pattern_def years_step_def re_findall_def report_def consume_def advance_def
  py_int_def isdigit_def digits_value_def is_digit_def is_space_def lower_def lower_char_def
  dict_get_def is_upper_def

lemma findall_ten_plus:
  "re_findall years_pattern ''10+ years of experience'' = [FStr ''10'']"
  by (simp add: eval_years)

lemma findall_present:
  "re_findall present_pattern ''2019 - present'' = [FStr ''2019'']"
  by (simp add: eval_years)

lemma years_ten_plus: "total_years_of ''10+ years of experience'' = Inr (- 1)"
  by (simp add: eval_years)

lemma years_fifteen: "total_years_of ''15 years in software'' = Inr 4"
  by (simp add: eval_years)

lemma years_present: "total_years_of ''2019 - present'' = Inr 0"
  by (simp add: eval_years)

lemma years_five: "total_years_of ''5 years of experience'' = Inr 5"
  by (simp add: eval_years)

lemma years_range: "total_years_of ''2015 - 2020'' = Inr 5"
  by (simp add: eval_years)

lemma years_first_mention: "total_years_of ''3 years, then 8 years'' = Inr 3"
  by (simp add: eval_years)

lemma years_score_of_text:
  "calculate_years_score (TextDict [(''work_experience'', t)]) =
     (case total_years_of t of Inl e \<Rightarrow> Inl e | Inr n \<Rightarrow> Inr (years_to_score n))"
  by (simp add: calculate_years_score_def dict_get_def)

text \<open>
  Claim C2 describes the years score as the largest single mention of \<open>N years\<close> or the
  sum of the year ranges, \<open>present\<close> standing for the current year, mapped through the
  thresholds 10, 7, 5, 3, 1. The code tells a single mention from a range by
  \<^verbatim>\<open>len(matches[0]) == 1\<close>, which is the length of the matched digits for the first and the
  third pattern: a one-digit mention is read as intended, a two-digit mention is read as a
  range from its first digit to its second, and a match of the \<open>present\<close> pattern (four
  digits) is skipped, so that the branch that would put 2024 for \<open>present\<close> is never taken.
  Of several single mentions the first counts. The thresholds are as stated.
\<close>

theorem years_score_on_mentions:
  "calculate_years_score (TextDict [(''work_experience'', ''10+ years of experience'')]) = Inr 30
   \<and> calculate_years_score (TextDict [(''work_experience'', ''15 years in software'')]) = Inr 70
   \<and> calculate_years_score (TextDict [(''work_experience'', ''2019 - present'')]) = Inr 30
   \<and> calculate_years_score (TextDict [(''work_experience'', ''3 years, then 8 years'')]) = Inr 70
   \<and> calculate_years_score (TextDict [(''work_experience'', ''5 years of experience'')]) = Inr 80
   \<and> calculate_years_score (TextDict [(''work_experience'', ''2015 - 2020'')]) = Inr 80
   \<and> years_to_score n =
       (if n \<ge> 10 then 100 else if n \<ge> 7 then 90 else if n \<ge> 5 then 80
        else if n \<ge> 3 then 70 else if n \<ge> 1 then 60 else 30)"
  by (simp add: years_score_of_text years_ten_plus years_fifteen years_present
      years_first_mention years_five years_range years_to_score_def)

subsection \<open>Synonym table and taxonomy\<close>

text \<open>
  Claim C3 asks that every key of the synonym table belong to exactly one category of the
  taxonomy. In the tables of the code six keys belong to one category and the other
  eighteen to none; no key belongs to two. For a key without a category the extractor
  finds no category to record a synonym hit under, and leaves the result as it is.
\<close>

theorem synonym_keys_categories:
  "map (\<lambda>k. (k, categories_of SkillMatcher k)) (map fst (skill_synonyms SkillMatcher)) =
   [(''javascript'', [''programming_languages'']),
    (''typescript'', [''programming_languages'']),
    (''python'', [''programming_languages'']),
    (''postgresql'', [''databases'']),
    (''mongodb'', [''databases'']),
    (''kubernetes'', [''cloud_platforms'']),
    (''amazon web services'', []),
    (''google cloud platform'', []),
    (''microsoft azure'', []),
    (''machine learning'', []),
    (''deep learning'', []),
    (''natural language processing'', []),
    (''computer vision'', []),
    (''user interface'', []),
    (''user experience'', []),
    (''application programming interface'', []),
    (''structured query language'', []),
    (''nosql'', []),
    (''continuous integration'', []),
    (''continuous deployment'', []),
    (''test driven development'', []),
    (''behavior driven development'', []),
    (''object oriented programming'', []),
    (''functional programming'', [])]
   \<and> record_main_skill ''machine learning'' (skill_categories SkillMatcher) found_skills
       = found_skills"
  by (simp add: categories_of_def SkillMatcher_def load_skill_categories_def
      load_skill_synonyms_def)

subsection \<open>Rounding keeps integer bounds\<close>

lemma round_half_even_ge: "of_int a \<le> x \<Longrightarrow> a \<le> round_half_even x"
proof -
  assume "of_int a \<le> x"
  then have "a \<le> \<lfloor>x\<rfloor>" by (simp add: le_floor_iff)
  then show ?thesis by (auto simp: round_half_even_def Let_def)
qed

lemma round_half_even_le: "x \<le> of_int b \<Longrightarrow> round_half_even x \<le> b"
proof -
  assume xb: "x \<le> of_int b"
  then have fb: "\<lfloor>x\<rfloor> \<le> b" by (simp add: floor_le_iff) 
  show ?thesis
  proof (cases "\<lfloor>x\<rfloor> = b")
    case True
    then have "of_int b \<le> x" by (metis of_int_floor_le)
    with xb have "x = of_int b" by simp
    then show ?thesis by (simp add: round_half_even_def)
  next
    case False
    with fb have "\<lfloor>x\<rfloor> + 1 \<le> b" by simp
    with fb show ?thesis by (auto simp: round_half_even_def Let_def)
  qed
qed

lemma py_round2_range:
  assumes "0 \<le> x" and "x \<le> 100"
  shows "0 \<le> py_round2 x \<and> py_round2 x \<le> 100"
proof -
  have "of_int 0 \<le> x * 100" using assms(1) by simp
  then have "0 \<le> round_half_even (x * 100)" by (rule round_half_even_ge)
  moreover have "x * 100 \<le> of_int 10000" using assms(2) by simp
  then have "round_half_even (x * 100) \<le> 10000" by (rule round_half_even_le)
  ultimately show ?thesis by (simp add: py_round2_def)
qed

subsection \<open>Sub-scores\<close>

lemma years_to_score_range: "30 \<le> years_to_score n \<and> years_to_score n \<le> 100"
  by (simp add: years_to_score_def)

lemma calculate_years_score_range:
  "calculate_years_score rd = Inr y \<Longrightarrow> 30 \<le> y \<and> y \<le> 100"
  using years_to_score_range
  by (auto simp: calculate_years_score_def split: sum.splits)

lemma calculate_career_progression_range:
  "calculate_career_progression rd = Inr p \<Longrightarrow> 50 \<le> p \<and> p \<le> 100"
  by (auto simp: calculate_career_progression_def split: sum.splits)

lemma calculate_degree_match_range:
  "30 \<le> calculate_degree_match a b \<and> calculate_degree_match a b \<le> 100"
  by (simp add: calculate_degree_match_def Let_def split: option.splits)

lemma calculate_field_relevance_range:
  "50 \<le> calculate_field_relevance a b \<and> calculate_field_relevance a b \<le> 90"
  by (simp add: calculate_field_relevance_def Let_def)

lemma calculate_certification_score_range:
  "calculate_certification_score rd = Inr c \<Longrightarrow> 0 \<le> c \<and> c \<le> 100"
  by (auto simp: calculate_certification_score_def split: sum.splits)

lemma calculate_achievements_score_range:
  "calculate_achievements_score rd = Inr a \<Longrightarrow> 50 \<le> a \<and> a \<le> 100"
  by (auto simp: calculate_achievements_score_def split: sum.splits)

subsection \<open>Experience and education totals\<close>

lemma experience_total_range:
  "0 \<le> total_score (calculate_experience_score ea rd)
   \<and> total_score (calculate_experience_score ea rd) \<le> 100"
proof (cases "calculate_years_score rd")
  case (Inl e)
  then show ?thesis
    by (simp add: calculate_experience_score_def experience_try_def experience_init_def)
next
  case (Inr y)
  note y = this
  show ?thesis
  proof (cases "calculate_career_progression rd")
    case (Inl e)
    with y show ?thesis
      by (simp add: calculate_experience_score_def experience_try_def experience_init_def Let_def)
  next
    case (Inr p)
    let ?t = "y * (3 / 10) + 75 * (4 / 10) + 70 * (2 / 10) + p * (1 / 10)"
    have "0 \<le> ?t \<and> ?t \<le> 100"
      using calculate_years_score_range [OF y] calculate_career_progression_range [OF Inr]
      by simp
    then have "0 \<le> py_round2 ?t \<and> py_round2 ?t \<le> 100"
      using py_round2_range by blast
    with y Inr show ?thesis
      by (simp add: calculate_experience_score_def experience_try_def experience_init_def Let_def
          calculate_role_relevance_def calculate_industry_match_def)
  qed
qed

lemma education_total_range:
  "0 \<le> total_score (calculate_education_score rd jd)
   \<and> total_score (calculate_education_score rd jd) \<le> 100"
proof (cases "education_try rd jd education_init")
  case (Pair sb r)
  show ?thesis
  proof (cases r)
    case (Some e)
    with Pair show ?thesis by (simp add: calculate_education_score_def)
  next
    case None
    with Pair obtain ed rq c where ed: "str_get rd ''education'' = Inr ed"
      and rq: "str_get jd ''educational_requirements'' = Inr rq"
      and c: "calculate_certification_score rd = Inr c"
      and sb: "total_score sb = py_round2 (calculate_degree_match (lower ed) (lower rq) * (4 / 10)
                 + calculate_field_relevance (lower ed) (lower rq) * (4 / 10) + c * (2 / 10))"
      by (auto simp: education_try_def Let_def split: sum.splits)
    let ?t = "calculate_degree_match (lower ed) (lower rq) * (4 / 10)
                 + calculate_field_relevance (lower ed) (lower rq) * (4 / 10) + c * (2 / 10)"
    have "0 \<le> ?t \<and> ?t \<le> 100"
      using calculate_degree_match_range [of "lower ed" "lower rq"]
        calculate_field_relevance_range [of "lower ed" "lower rq"]
        calculate_certification_score_range [OF c]
      by simp
    then have "0 \<le> py_round2 ?t \<and> py_round2 ?t \<le> 100"
      using py_round2_range by blast
    with Pair None sb show ?thesis by (simp add: calculate_education_score_def)
  qed
qed

lemma depth_of_range: "40 \<le> depth_of n \<and> depth_of n \<le> 90"
  by (simp add: depth_of_def)

lemma relevance_of_range: "0 \<le> relevance_of e m \<and> relevance_of e m \<le> 100"
  using relevance_le_100 [of e m] by (simp add: relevance_of_def)

lemma skills_total_range:
  assumes "0 \<le> overall_score m"
  shows "0 \<le> total_score (calculate_skills_score (match_result_to_py m))
         \<and> total_score (calculate_skills_score (match_result_to_py m)) \<le> 100"
proof -
  let ?e = "count_skills (exact_matches m)" and ?m = "count_skills (missing_skills m)"
  let ?t = "min (overall_score m) 100 * (4 / 10) + depth_of ?e * (3 / 10)
              + relevance_of ?e ?m * (3 / 10)"
  have aux: "0 \<le> a * (4 / 10) + b * (3 / 10) + c * (3 / 10)
      \<and> a * (4 / 10) + b * (3 / 10) + c * (3 / 10) \<le> 100"
    if "0 \<le> a \<and> a \<le> 100" "40 \<le> b \<and> b \<le> 90" "0 \<le> c \<and> c \<le> 100" for a b c :: real
    using that by simp
  have "0 \<le> min (overall_score m) 100 \<and> min (overall_score m) 100 \<le> 100"
    using assms by simp
  then have "0 \<le> ?t \<and> ?t \<le> 100"
    using depth_of_range [of ?e] relevance_of_range [of ?e ?m] by (rule aux)
  then have "0 \<le> py_round2 ?t \<and> py_round2 ?t \<le> 100"
    using py_round2_range by blast
  then show ?thesis
    by (simp add: calculate_skills_score_match_result skills_try_match_result)
qed

lemma category_score_of_range:
  "0 \<le> category_score_of c r cat \<and> category_score_of c r cat \<le> 100"
proof -
  let ?R = "set (dict_get r cat [])" and ?C = "set (dict_get c cat [])"
  have aux: "0 \<le> x * 100 \<and> x * 100 \<le> 100" if "0 \<le> x" "x \<le> 1" for x :: real
    using that by simp
  have le: "card (?C \<inter> ?R) \<le> card ?R" by (intro card_mono) auto
  have "real (card (?C \<inter> ?R)) / real (card ?R) \<le> 1"
  proof (cases "card ?R = 0")
    case True
    then show ?thesis by simp
  next
    case False
    then have "0 < card ?R" by (rule neq0_conv [THEN iffD1])
    then have pos: "0 < real (card ?R)" by (simp only: of_nat_0_less_iff)
    have "real (card (?C \<inter> ?R)) \<le> 1 * real (card ?R)" using le by simp
    with pos show ?thesis by (rule mult_imp_div_pos_le)
  qed
  moreover have "0 \<le> real (card (?C \<inter> ?R)) / real (card ?R)" by simp
  ultimately show ?thesis
    unfolding category_score_of_def by (intro aux)
qed

lemma sum_list_card_mono:
  "(\<Sum>k\<leftarrow>cats. card (set (dict_get c k []) \<inter> set (dict_get r k [])))
     \<le> (\<Sum>k\<leftarrow>cats. card (set (dict_get r k [])))"
  by (intro sum_list_mono card_mono) auto

lemma match_overall_range:
  "0 \<le> overall_score (calculate_skill_match_score c r)
   \<and> overall_score (calculate_skill_match_score c r) \<le> 100"
proof -
  let ?st = "match_loop c r (py_set (map fst c @ map fst r)) match_init"
  have aux: "0 \<le> x * 100 \<and> x * 100 \<le> 100" if "0 \<le> x" "x \<le> 1" for x :: real
    using that by simp
  have le: "total_matched_count ?st \<le> total_required_count ?st"
    by (simp add: match_loop_matched match_loop_required match_init_def sum_list_card_mono)
  show ?thesis
  proof (cases "total_required_count ?st > 0")
    case False
    then show ?thesis
      by (simp add: calculate_skill_match_score_def Let_def match_loop_overall match_init_def)
  next
    case True
    then have pos: "0 < real (total_required_count ?st)" by (simp only: of_nat_0_less_iff)
    have "real (total_matched_count ?st) \<le> 1 * real (total_required_count ?st)"
      using le by simp
    with pos have "real (total_matched_count ?st) / real (total_required_count ?st) \<le> 1"
      by (rule mult_imp_div_pos_le)
    moreover have "0 \<le> real (total_matched_count ?st) / real (total_required_count ?st)"
      by simp
    ultimately have "0 \<le> real (total_matched_count ?st) / real (total_required_count ?st) * 100
      \<and> real (total_matched_count ?st) / real (total_required_count ?st) * 100 \<le> 100"
      by (intro aux)
    with True show ?thesis
      by (simp add: calculate_skill_match_score_def Let_def)
  qed
qed

lemma in_range_converts:
  assumes "as_number v = Some x" and "0 \<le> x \<and> x \<le> 100"
  shows "py_times_float v w = Inr (x, x * w)"
proof -
  have big: "(100::int) < 2 ^ 1024 - 2 ^ 970" by simp
  have "\<not> int_overflows v"
  proof (cases v)
    case (PInt i)
    with assms have "\<bar>i\<bar> \<le> 100" by auto
    with big PInt show ?thesis by (simp add: float_overflows_def)
  qed simp_all
  with assms(1) show ?thesis by (simp add: py_times_float_def)
qed

lemma overall_total_range:
  assumes "py_get ss ''total_score'' (PInt 0) = Inr s" and "as_number s = Some sn"
    and "0 \<le> sn \<and> sn \<le> 100"
    and "py_get es ''total_score'' (PInt 0) = Inr x" and "as_number x = Some xn"
    and "0 \<le> xn \<and> xn \<le> 100"
    and "py_get eds ''total_score'' (PInt 0) = Inr d" and "as_number d = Some dn"
    and "0 \<le> dn \<and> dn \<le> 100"
  shows "\<exists>res. calculate_overall_score (ScoringEngine cfg) ss es eds (TextDict t) = Inr res
           \<and> 0 \<le> final_overall_score res \<and> final_overall_score res \<le> 100"
proof -
  obtain a where a: "calculate_achievements_score (TextDict t) = Inr a"
    by (simp add: calculate_achievements_score_def)
  let ?o = "sn * (35 / 100) + xn * (30 / 100) + dn * (15 / 100) + a * (10 / 100)"
  have "0 \<le> ?o \<and> ?o \<le> 100"
    using assms(3,6,9) calculate_achievements_score_range [OF a] by simp
  then have "0 \<le> py_round2 ?o \<and> py_round2 ?o \<le> 100"
    using py_round2_range by blast
  then show ?thesis
    using assms(1,4,7) a in_range_converts [OF assms(2,3)] in_range_converts [OF assms(5,6)]
      in_range_converts [OF assms(8,9)]
    by (simp add: calculate_overall_score_def ScoringEngine_def Let_def)
qed

lemma total_of_skills_to_py:
  "py_get (skills_to_py sb) ''total_score'' (PInt 0) = Inr (PFloat (total_score sb))"
  by (simp add: skills_to_py_def dict_get_def)

lemma total_of_experience_to_py:
  "py_get (experience_to_py sb) ''total_score'' (PInt 0) = Inr (PFloat (total_score sb))"
  by (simp add: experience_to_py_def dict_get_def)

lemma total_of_education_to_py:
  "py_get (education_to_py sb) ''total_score'' (PInt 0) = Inr (PFloat (total_score sb))"
  by (simp add: education_to_py_def dict_get_def)

lemma pipeline_overall_range:
  "\<exists>res. calculate_overall_score (ScoringEngine cfg)
            (skills_to_py (calculate_skills_score
               (match_result_to_py (calculate_skill_match_score c r))))
            (experience_to_py (calculate_experience_score ea (TextDict t)))
            (education_to_py (calculate_education_score (TextDict t) jd))
            (TextDict t) = Inr res
         \<and> 0 \<le> final_overall_score res \<and> final_overall_score res \<le> 100"
proof -
  have "0 \<le> overall_score (calculate_skill_match_score c r)"
    using match_overall_range by blast
  then have s: "0 \<le> total_score (calculate_skills_score
               (match_result_to_py (calculate_skill_match_score c r)))
      \<and> total_score (calculate_skills_score
               (match_result_to_py (calculate_skill_match_score c r))) \<le> 100"
    by (rule skills_total_range)
  show ?thesis
    by (rule overall_total_range [OF total_of_skills_to_py _ s total_of_experience_to_py _
          experience_total_range total_of_education_to_py _ education_total_range]) simp_all
qed

subsection \<open>Score ranges\<close>

text \<open>
  Claim C9, as the code has it. Every category score and the overall score of the match
  calculator lie in [0, 100], for every pair of maps. The experience total and the education
  total lie in [0, 100] for every input. The skills total lies in [0, 100] for every
  match-result-shaped record whose overall match score is not negative, hence for every
  result of the match calculator. The overall score lies in [0, 100] whenever the three
  totals handed in are numbers in [0, 100] and the resume record is a dict, hence along the
  whole pipeline.
\<close>

theorem scores_in_range:
  "(\<forall>v. map_of (category_scores (calculate_skill_match_score c r)) cat = Some v
         \<longrightarrow> 0 \<le> v \<and> v \<le> 100)
   \<and> 0 \<le> overall_score (calculate_skill_match_score c r)
   \<and> overall_score (calculate_skill_match_score c r) \<le> 100
   \<and> (0 \<le> overall_score m \<longrightarrow>
        0 \<le> total_score (calculate_skills_score (match_result_to_py m))
        \<and> total_score (calculate_skills_score (match_result_to_py m)) \<le> 100)
   \<and> 0 \<le> total_score (calculate_skills_score
              (match_result_to_py (calculate_skill_match_score c r)))
   \<and> total_score (calculate_skills_score
              (match_result_to_py (calculate_skill_match_score c r))) \<le> 100
   \<and> 0 \<le> total_score (calculate_experience_score ea rd)
   \<and> total_score (calculate_experience_score ea rd) \<le> 100
   \<and> 0 \<le> total_score (calculate_education_score rd jd)
   \<and> total_score (calculate_education_score rd jd) \<le> 100
   \<and> (py_get ss ''total_score'' (PInt 0) = Inr s \<and> as_number s = Some sn
        \<and> 0 \<le> sn \<and> sn \<le> 100
        \<and> py_get es ''total_score'' (PInt 0) = Inr x \<and> as_number x = Some xn
        \<and> 0 \<le> xn \<and> xn \<le> 100
        \<and> py_get eds ''total_score'' (PInt 0) = Inr d \<and> as_number d = Some dn
        \<and> 0 \<le> dn \<and> dn \<le> 100
      \<longrightarrow> (\<exists>res. calculate_overall_score (ScoringEngine cfg) ss es eds (TextDict t) = Inr res
                 \<and> 0 \<le> final_overall_score res \<and> final_overall_score res \<le> 100))
   \<and> (\<exists>res. calculate_overall_score (ScoringEngine cfg)
                (skills_to_py (calculate_skills_score
                   (match_result_to_py (calculate_skill_match_score c r))))
                (experience_to_py (calculate_experience_score ea (TextDict t)))
                (education_to_py (calculate_education_score (TextDict t) jd))
                (TextDict t) = Inr res
           \<and> 0 \<le> final_overall_score res \<and> final_overall_score res \<le> 100)"
proof -
  have 1: "\<forall>v. map_of (category_scores (calculate_skill_match_score c r)) cat = Some v
         \<longrightarrow> 0 \<le> v \<and> v \<le> 100"
    using category_score_of_range [of c r cat]
    by (simp add: category_scores_lookup)
  note 2 = match_overall_range [of c r]
  have 3: "0 \<le> overall_score m \<longrightarrow>
        0 \<le> total_score (calculate_skills_score (match_result_to_py m))
        \<and> total_score (calculate_skills_score (match_result_to_py m)) \<le> 100"
    using skills_total_range by blast
  have 4: "0 \<le> total_score (calculate_skills_score
              (match_result_to_py (calculate_skill_match_score c r)))
   \<and> total_score (calculate_skills_score
              (match_result_to_py (calculate_skill_match_score c r))) \<le> 100"
    using 2 skills_total_range by blast
  note 5 = experience_total_range [of ea rd]
  note 6 = education_total_range [of rd jd]
  have 7: "py_get ss ''total_score'' (PInt 0) = Inr s \<and> as_number s = Some sn
        \<and> 0 \<le> sn \<and> sn \<le> 100
        \<and> py_get es ''total_score'' (PInt 0) = Inr x \<and> as_number x = Some xn
        \<and> 0 \<le> xn \<and> xn \<le> 100
        \<and> py_get eds ''total_score'' (PInt 0) = Inr d \<and> as_number d = Some dn
        \<and> 0 \<le> dn \<and> dn \<le> 100
      \<longrightarrow> (\<exists>res. calculate_overall_score (ScoringEngine cfg) ss es eds (TextDict t) = Inr res
                 \<and> 0 \<le> final_overall_score res \<and> final_overall_score res \<le> 100)"
    using overall_total_range [of ss s sn es x xn eds d dn cfg t] by blast
  note 8 = pipeline_overall_range [of cfg c r ea t jd]
  show ?thesis
    using 1 2 3 4 5 6 7 8 by blast
qed

theorem scores_in_range_witness:
  "map_of (category_scores (calculate_skill_match_score [(''databases'', [''mysql''])]
       [(''databases'', [''mysql'', ''postgresql'', ''mongodb''])])) ''databases'' = Some (100 / 3)
   \<and> 0 \<le> (100 / 3 :: real) \<and> (100 / 3 :: real) \<le> 100
   \<and> 0 \<le> overall_score one_of_three
   \<and> 0 \<le> total_score (calculate_skills_score (match_result_to_py one_of_three))
   \<and> total_score (calculate_skills_score (match_result_to_py one_of_three)) \<le> 100
   \<and> py_get (PDict [(''total_score'', PFloat 80)]) ''total_score'' (PInt 0) = Inr (PFloat 80)
   \<and> as_number (PFloat 80) = Some 80
   \<and> (\<exists>res. calculate_overall_score (ScoringEngine Config)
                (PDict [(''total_score'', PFloat 80)]) (PDict [(''total_score'', PFloat 80)])
                (PDict [(''total_score'', PFloat 80)]) (TextDict []) = Inr res
           \<and> 0 \<le> final_overall_score res \<and> final_overall_score res \<le> 100)"
proof -
  have h1: "map_of (category_scores (calculate_skill_match_score [(''databases'', [''mysql''])]
       [(''databases'', [''mysql'', ''postgresql'', ''mongodb''])])) ''databases'' = Some (100 / 3)"
    by (simp add: one_of_three_is_match_result one_of_three_def)
  have h2: "0 \<le> overall_score one_of_three"
    by (simp add: one_of_three_def)
  have h3: "py_get (PDict [(''total_score'', PFloat 80)]) ''total_score'' (PInt 0) = Inr (PFloat 80)"
    by (simp add: dict_get_def)
  have h4: "as_number (PFloat 80) = Some 80" by simp
  have h5: "(0::real) \<le> 80 \<and> (80::real) \<le> 100" by simp
  show ?thesis
    using scores_in_range [of "[(''databases'', [''mysql''])]"
        "[(''databases'', [''mysql'', ''postgresql'', ''mongodb''])]" "''databases''"
        one_of_three "()" "TextDict []" "TextDict []"
        "PDict [(''total_score'', PFloat 80)]" "PFloat 80" 80
        "PDict [(''total_score'', PFloat 80)]" "PFloat 80" 80
        "PDict [(''total_score'', PFloat 80)]" "PFloat 80" 80 Config "[]"]
      h1 h2 h3 h4 h5
    by simp
qed

text \<open>
  Without these conditions the bounds fail: a skills record with a negative overall match
  score has a negative total, and a component total above 100 gives an overall score
  above 100.
\<close>

theorem scores_out_of_range:
  "total_score (calculate_skills_score (PDict [(''overall_score'', PInt (- 1000))])) = - 373
   \<and> \<not> 0 \<le> total_score (calculate_skills_score (PDict [(''overall_score'', PInt (- 1000))]))
   \<and> map_sum id final_overall_score
        (calculate_overall_score (ScoringEngine Config) (PDict [(''total_score'', PInt 1000)])
           (PDict []) (PDict []) (TextDict [])) = Inr 355"
  by (simp add: calculate_skills_score_def skills_try_def skills_init_def dict_get_def
      py_min_100_def analyze_skill_depth_def calculate_skill_relevance_def sum_len_values_def
      py_round2_def round_half_even_def calculate_overall_score_def py_times_float_def
      float_overflows_def
      ScoringEngine_def calculate_achievements_score_def count_indicators_def
      achievement_indicators_def lower_def Let_def)

subsection \<open>Failure semantics of the score functions\<close>

text \<open>
  What the three handlers leave behind: after an exception in the skills body the total is
  0 and the details are empty, but the sub-scores stored before the exception stay; the
  experience and education bodies can only raise before they store anything.
\<close>

lemma skills_error_shape:
  assumes "skills_try sa skills_init = (sb, Some e)"
  shows "total_score sb = 0 \<and> details sb = None \<and> error sb = None"
  using assms
  by (auto simp: skills_try_def skills_init_def Let_def analyze_skill_depth_def
      calculate_skill_relevance_def split: sum.splits prod.splits)

lemma experience_error_shape:
  assumes "experience_try ea rd experience_init = (sb, Some e)"
  shows "sb = experience_init"
  using assms
  by (cases rd)
     (auto simp: experience_try_def Let_def calculate_years_score_def
        calculate_career_progression_def split: sum.splits)

lemma education_error_shape:
  assumes "education_try rd jd education_init = (sb, Some e)"
  shows "sb = education_init"
  using assms
  by (cases rd; cases jd)
     (auto simp: education_try_def Let_def calculate_certification_score_def split: sum.splits)

text \<open>
  Claim C1 asks that each of the four entry points catch every internal error and return a
  breakdown with every sub-score 0 and an error entry. The code does so only in part. The
  handlers of the three factor functions set the error entry and put \<open>total_score\<close> to 0,
  and leave the sub-scores already stored: a skills record whose missing skills are
  malformed comes back with the technical score 75 and the depth 40 next to the error, and
  one whose overall match score is an integer too large for a float comes back with the
  relevance 50 as well. \<^verbatim>\<open>calculate_overall_score\<close> has no \<^verbatim>\<open>try\<close> at all, unlike its three
  siblings: a total that is not a number, or an argument that is not a dict, raises out
  of it.
\<close>

theorem errors_not_all_zero:
  "error (calculate_skills_score (PDict
       [(''exact_matches'', PDict [(''databases'', PList [PStr ''mysql''])]),
        (''missing_skills'', PDict [(''databases'', PInt 2)]),
        (''overall_score'', PInt 75)])) =
     Some (''Skills scoring error: object of type '' @ quoted ''int'' @ '' has no len()'')
   \<and> technical_skills (calculate_skills_score (PDict
       [(''exact_matches'', PDict [(''databases'', PList [PStr ''mysql''])]),
        (''missing_skills'', PDict [(''databases'', PInt 2)]),
        (''overall_score'', PInt 75)])) = 75
   \<and> skill_depth (calculate_skills_score (PDict
       [(''exact_matches'', PDict [(''databases'', PList [PStr ''mysql''])]),
        (''missing_skills'', PDict [(''databases'', PInt 2)]),
        (''overall_score'', PInt 75)])) = 40
   \<and> error (calculate_skills_score (PDict [(''overall_score'', PInt (- (2 ^ 1024)))])) =
     Some ''Skills scoring error: int too large to convert to float''
   \<and> skill_relevance
        (calculate_skills_score (PDict [(''overall_score'', PInt (- (2 ^ 1024)))])) = 50
   \<and> skill_depth
        (calculate_skills_score (PDict [(''overall_score'', PInt (- (2 ^ 1024)))])) = 40
   \<and> calculate_overall_score (ScoringEngine Config) (PDict [(''total_score'', PStr ''n/a'')])
        (PDict []) (PDict []) (TextDict []) =
      Inl (TypeError (''can't multiply sequence by non-int of type '' @ quoted ''float''))
   \<and> calculate_overall_score (ScoringEngine Config) PNone (PDict []) (PDict []) (TextDict []) =
      Inl (no_attribute ''NoneType'' ''get'')"
  by (simp add: calculate_skills_score_def skills_try_def skills_init_def dict_get_def
      py_min_100_def py_times_float_def float_overflows_def analyze_skill_depth_def
      calculate_skill_relevance_def sum_len_values_def calculate_overall_score_def
      calculate_achievements_score_def Let_def)

end
